theory Spec2Isabelle
  imports Main
begin

section \<open>Python strings and payload values\<close>

text \<open>
  A Python \<open>str\<close> is a sequence of Unicode code points and \<open>len\<close> counts code points,
  so a string is modelled as a list of code points. \<open>lit\<close> turns an ASCII literal of the
  source into such a list; the glyphs the printer writes are given by their code points.
\<close>

type_synonym pystr = "nat list"

definition lit :: "string \<Rightarrow> pystr" where
  "lit s = map of_char s"

text \<open>
  Events, payloads and items are what a JSON decoder produces: \<open>None\<close>, booleans,
  integers, strings, lists and dicts with string keys. A dict is an association list in
  insertion order (keys are distinct in a Python dict); a lookup takes the first entry
  of the key. A JSON float is not modelled: in every branch of the source it behaves as
  an integer does (it is no \<open>str\<close>, \<open>list\<close> or \<open>dict\<close>, has no \<open>len\<close> and no methods).
\<close>

datatype pyval =
    PNone
  | PBool bool
  | PInt int
  | PStr pystr
  | PList "pyval list"
  | PDict "(pystr \<times> pyval) list"

type_synonym pydict = "(pystr \<times> pyval) list"

text \<open>The exceptions the source can raise on a payload of unexpected shape.\<close>

datatype py_error = TypeError | AttributeError | KeyError

fun truthy :: "pyval \<Rightarrow> bool" where
  "truthy PNone = False"
| "truthy (PBool b) = b"
| "truthy (PInt i) = (i \<noteq> 0)"
| "truthy (PStr s) = (s \<noteq> [])"
| "truthy (PList xs) = (xs \<noteq> [])"
| "truthy (PDict d) = (d \<noteq> [])"

text \<open>\<open>a or b\<close>: the first operand when it is truthy, the second otherwise.\<close>

definition py_or :: "pyval \<Rightarrow> pyval \<Rightarrow> pyval" where
  "py_or a b = (if truthy a then a else b)"

text \<open>\<open>d.get(k)\<close> and \<open>d.get(k, default)\<close>.\<close>

definition dget :: "pydict \<Rightarrow> string \<Rightarrow> pyval" where
  "dget d k = (case map_of d (lit k) of None \<Rightarrow> PNone | Some v \<Rightarrow> v)"

definition dget_default :: "pydict \<Rightarrow> string \<Rightarrow> pyval \<Rightarrow> pyval" where
  "dget_default d k dflt = (case map_of d (lit k) of None \<Rightarrow> dflt | Some v \<Rightarrow> v)"

text \<open>\<open>k in d\<close> for a dict \<open>d\<close>.\<close>

definition has_key :: "pydict \<Rightarrow> string \<Rightarrow> bool" where
  "has_key d k = (map_of d (lit k) \<noteq> None)"

text \<open>\<open>v == "name"\<close> and \<open>v in ("a", "b", ...)\<close> for string literals of the source.\<close>

definition is_lit :: "pyval \<Rightarrow> string \<Rightarrow> bool" where
  "is_lit v name = (v = PStr (lit name))"

definition one_of :: "pyval \<Rightarrow> string list \<Rightarrow> bool" where
  "one_of v names = list_ex (is_lit v) names"

subsection \<open>Decimal text of an integer\<close>

fun digits :: "nat \<Rightarrow> pystr" where
  "digits n = (if n < 10 then [48 + n] else digits (n div 10) @ [48 + n mod 10])"

declare digits.simps [simp del]

definition str_int :: "int \<Rightarrow> pystr" where
  "str_int i = (if i < 0 then 45 # digits (nat (- i)) else digits (nat i))"

subsection \<open>\<open>str(v)\<close> and f-string formatting\<close>

text \<open>
  \<open>str\<close> of \<open>None\<close>, a boolean, an integer and a string is written out. \<open>str\<close> of a list
  or a dict is Python's \<open>repr\<close> of the container, which quotes and escapes the strings
  inside by the Unicode tables; it is the parameter \<open>R\<close> of every function that may
  print a container, and every theorem holds for every \<open>R\<close>. An f-string field
  \<open>{v}\<close> without a format specification prints \<open>str(v)\<close> for all these values.
\<close>

fun py_str :: "(pyval \<Rightarrow> pystr) \<Rightarrow> pyval \<Rightarrow> pystr" where
  "py_str R PNone = lit ''None''"
| "py_str R (PBool b) = (if b then lit ''True'' else lit ''False'')"
| "py_str R (PInt i) = str_int i"
| "py_str R (PStr s) = s"
| "py_str R (PList xs) = R (PList xs)"
| "py_str R (PDict d) = R (PDict d)"

subsection \<open>String operations\<close>

text \<open>\<open>xs[:n]\<close> for a Python integer \<open>n\<close>: a negative \<open>n\<close> counts from the end.\<close>

definition slice_to :: "'a list \<Rightarrow> int \<Rightarrow> 'a list" where
  "slice_to xs n = (if n < 0 then take (length xs - nat (- n)) xs else take (nat n) xs)"

text \<open>\<open>sep.join(parts)\<close> on strings.\<close>

fun join :: "pystr \<Rightarrow> pystr list \<Rightarrow> pystr" where
  "join sep [] = []"
| "join sep [x] = x"
| "join sep (x # y # ys) = x @ sep @ join sep (y # ys)"

text \<open>
  \<open>" ".join(xs)\<close> on a list of payload values: a \<open>TypeError\<close> unless every element is a
  string.
\<close>

fun strs_of :: "pyval list \<Rightarrow> py_error + pystr list" where
  "strs_of [] = Inr []"
| "strs_of (PStr s # vs) = (case strs_of vs of Inl e \<Rightarrow> Inl e | Inr ss \<Rightarrow> Inr (s # ss))"
| "strs_of (v # vs) = Inl TypeError"

definition join_values :: "pyval list \<Rightarrow> py_error + pystr" where
  "join_values vs = (case strs_of vs of Inl e \<Rightarrow> Inl e | Inr ss \<Rightarrow> Inr (join (lit '' '') ss))"

text \<open>\<open>" ".join(str(v) for v in xs)\<close>: total.\<close>

definition join_strs :: "(pyval \<Rightarrow> pystr) \<Rightarrow> pyval list \<Rightarrow> pystr" where
  "join_strs R vs = join (lit '' '') (map (py_str R) vs)"

text \<open>\<open>s.find(sub)\<close> for a non-empty \<open>sub\<close>, and \<open>sub in s\<close>.\<close>

fun find_sub :: "pystr \<Rightarrow> pystr \<Rightarrow> nat option" where
  "find_sub sub [] = (if sub = [] then Some 0 else None)"
| "find_sub sub (c # cs) =
     (if take (length sub) (c # cs) = sub then Some 0
      else map_option Suc (find_sub sub cs))"

definition contains :: "pystr \<Rightarrow> pystr \<Rightarrow> bool" where
  "contains sub s = (find_sub sub s \<noteq> None)"

text \<open>\<open>s.startswith(p)\<close>.\<close>

definition startswith :: "pystr \<Rightarrow> pystr \<Rightarrow> bool" where
  "startswith s p = (take (length p) s = p)"

text \<open>\<open>s.endswith("\n")\<close>.\<close>

definition ends_with_newline :: "pystr \<Rightarrow> bool" where
  "ends_with_newline s = (s \<noteq> [] \<and> last s = 10)"

text \<open>\<open>s.replace(old, "")\<close> for a non-empty \<open>old\<close>: occurrences are removed left to right.\<close>

function remove_all :: "pystr \<Rightarrow> pystr \<Rightarrow> pystr" where
  "remove_all old s =
     (if s = [] \<or> old = [] then s
      else if take (length old) s = old then remove_all old (drop (length old) s)
      else hd s # remove_all old (tl s))"
  by pat_completeness auto
termination
  by (relation "measure (\<lambda>(old, s). length s)") auto

declare remove_all.simps [simp del]

text \<open>The code points for which \<open>str.isspace\<close> holds: what \<open>strip()\<close> and \<open>split()\<close> skip.\<close>

definition is_space :: "nat \<Rightarrow> bool" where
  "is_space c = (c \<in> set [9, 10, 11, 12, 13, 28, 29, 30, 31, 32, 133, 160, 5760,
     8192, 8193, 8194, 8195, 8196, 8197, 8198, 8199, 8200, 8201, 8202,
     8232, 8233, 8239, 8287, 12288])"

text \<open>\<open>s.strip()\<close> and \<open>s.strip(chars)\<close>: drop the matching code points at both ends.\<close>

definition strip_where :: "(nat \<Rightarrow> bool) \<Rightarrow> pystr \<Rightarrow> pystr" where
  "strip_where P s = rev (dropWhile P (rev (dropWhile P s)))"

definition strip :: "pystr \<Rightarrow> pystr" where
  "strip s = strip_where is_space s"

definition strip_char :: "nat \<Rightarrow> pystr \<Rightarrow> pystr" where
  "strip_char c s = strip_where (\<lambda>x. x = c) s"

text \<open>\<open>s.split(sep)[0]\<close> for a one-character separator: the text before its first occurrence.\<close>

definition before_first :: "nat \<Rightarrow> pystr \<Rightarrow> pystr" where
  "before_first sep s = takeWhile (\<lambda>c. c \<noteq> sep) s"

text \<open>\<open>s.split("\n", 1)[1]\<close> when \<open>s\<close> has a line break: the text after the first one.\<close>

definition after_first :: "nat \<Rightarrow> pystr \<Rightarrow> pystr" where
  "after_first sep s = tl (dropWhile (\<lambda>c. c \<noteq> sep) s)"

text \<open>\<open>path.rsplit("/", 1)[-1]\<close>: the text after the last \<open>/\<close>, all of it when there is none.\<close>

definition basename :: "pystr \<Rightarrow> pystr" where
  "basename path = rev (takeWhile (\<lambda>c. c \<noteq> 47) (rev path))"

text \<open>\<open>len(s.split())\<close>: the number of maximal runs of non-space code points.\<close>

fun count_words :: "bool \<Rightarrow> pystr \<Rightarrow> nat" where
  "count_words in_word [] = 0"
| "count_words in_word (c # cs) =
     (if is_space c then count_words False cs
      else (if in_word then 0 else 1) + count_words True cs)"

definition word_count :: "pystr \<Rightarrow> int" where
  "word_count s = int (count_words False s)"

subsection \<open>Results that may raise\<close>

text \<open>A call that raises returns \<open>Inl\<close> of the exception; \<open>and_then\<close> sequences two calls.\<close>

definition and_then :: "py_error + 'a \<Rightarrow> ('a \<Rightarrow> py_error + 'b) \<Rightarrow> py_error + 'b" where
  "and_then m f = (case m of Inl e \<Rightarrow> Inl e | Inr x \<Rightarrow> f x)"

section \<open>Render state\<close>

text \<open>
  The terminal is modelled by the list of \<open>write\<close> calls so far, in order. Each entry
  has the stream, a tag for the statement of the source that wrote it, and the text. The
  tag is an annotation: it is no part of what the terminal receives.
  \<^item> \<open>StatusDraw\<close>: the status line, written by \<open>_write_status_line\<close>;
  \<^item> \<open>ItemOpen\<close>: an item line without its line break (\<open>_log_item_started\<close>,
    \<open>_log_claude_tool_use\<close>);
  \<^item> \<open>ItemClose\<close>: the completion mark appended to the open item line;
  \<^item> \<open>LineBreak\<close>: the line break that closes an open item line by force;
  \<^item> \<open>Completed\<close>: a standalone completed line of \<open>_log_item_completed\<close>;
  \<^item> \<open>Text\<close>: every other write.
\<close>

datatype stream = Stdout | Stderr

datatype wkind = StatusDraw | ItemOpen | ItemClose | LineBreak | Completed | Text

datatype wr = Wr stream wkind pystr

text \<open>
  The fields of \<open>ProgressPrinter\<close>. The start time, the lock and the thread handle are
  left out: \<open>time.monotonic()\<close> is not modelled, so every function that calls
  \<open>_format_elapsed()\<close> takes the text it returns as its argument \<open>el\<close>; each block under
  \<open>with self._lock\<close> is one function call of the model, and the ticker's iteration is
  \<open>spinner_tick\<close>.
\<close>

record printer =
  stream_tokens :: bool
  label :: pystr
  status :: pystr
  activity :: pystr
  spinner_idx :: int
  token_count :: int
  event_count :: int
  running :: bool
  is_tty :: bool
  current_line :: pystr
  has_content :: bool
  recent_activities :: "pystr list"
  item_line_open :: bool
  out :: "wr list"

section \<open>Truncation\<close>

text \<open>
  The summarizer's helper, on the strings it is declared for:
  \<^verbatim>\<open>def truncate(s: str, limit: int = 40) -> str:
    return (s[:limit] + "...") if len(s) > limit else s\<close>
\<close>

definition truncate :: "pystr \<Rightarrow> int \<Rightarrow> pystr" where
  "truncate s limit = (if int (length s) > limit then slice_to s limit @ lit ''...'' else s)"

text \<open>
  The same expression on a payload value that was not checked to be a string
  (\<open>truncate(summary, 50)\<close>, and \<open>cmd[:40] + "..." if len(cmd) > 40 else cmd\<close> in the
  extractor): \<open>len\<close> raises on \<open>None\<close>, booleans and integers; a list or dict within the
  limit is returned as it is, a longer one raises at the slice or at \<open>+ "..."\<close> (a dict
  raises \<open>KeyError\<close> instead of \<open>TypeError\<close> from Python 3.12 on).
\<close>

fun truncate_value :: "pyval \<Rightarrow> int \<Rightarrow> py_error + pyval" where
  "truncate_value (PStr s) limit = Inr (PStr (truncate s limit))"
| "truncate_value (PList xs) limit =
     (if int (length xs) > limit then Inl TypeError else Inr (PList xs))"
| "truncate_value (PDict d) limit =
     (if int (length d) > limit then Inl TypeError else Inr (PDict d))"
| "truncate_value v limit = Inl TypeError"

text \<open>
  The status line's cut in \<open>_write_status_line\<close>, with \<open>max_width = 80\<close>:
  \<^verbatim>\<open>if len(line) > max_width:
    line = line[:max_width - 3] + "..."\<close>
\<close>

definition fit_width :: "pystr \<Rightarrow> int \<Rightarrow> pystr" where
  "fit_width line max_width =
     (if int (length line) > max_width then slice_to line (max_width - 3) @ lit ''...'' else line)"

section \<open>Activity extractor\<close>

text \<open>\<open>path.rsplit("/", 1)[-1]\<close> on a payload value: only a string has \<open>rsplit\<close>.\<close>

fun rsplit_last :: "pyval \<Rightarrow> py_error + pystr" where
  "rsplit_last (PStr s) = Inr (basename s)"
| "rsplit_last v = Inl AttributeError"

text \<open>
  The three file branches of \<open>_extract_activity\<close> differ in their words only:
  \<^verbatim>\<open>path = raw.get("path") or raw.get("file") or ""
if path:
    fname = path.rsplit("/", 1)[-1]
    return f"writing {fname}..."
return "writing file..."\<close>
\<close>

definition file_activity :: "pydict \<Rightarrow> string \<Rightarrow> py_error + pystr option" where
  "file_activity raw verb =
     (let path = py_or (py_or (dget raw ''path'') (dget raw ''file'')) (PStr []) in
      if truthy path then
        and_then (rsplit_last path) (\<lambda>fname. Inr (Some (lit verb @ lit '' '' @ fname @ lit ''...'')))
      else Inr (Some (lit verb @ lit '' file...'')))"

text \<open>
  \<^verbatim>\<open>cmd = raw.get("command") or raw.get("cmd") or ""
if isinstance(cmd, list):
    cmd = " ".join(cmd[:3])
if cmd:
    short = cmd[:40] + "..." if len(cmd) > 40 else cmd
    return f"running: {short}"
return "running command..."\<close>
\<close>

definition spawn_activity :: "(pyval \<Rightarrow> pystr) \<Rightarrow> pydict \<Rightarrow> py_error + pystr option" where
  "spawn_activity R raw =
     (let cmd0 = py_or (py_or (dget raw ''command'') (dget raw ''cmd'')) (PStr []) in
      and_then
        (case cmd0 of
           PList xs \<Rightarrow> and_then (join_values (take 3 xs)) (\<lambda>s. Inr (PStr s))
         | _ \<Rightarrow> Inr cmd0)
        (\<lambda>cmd.
           if truthy cmd then
             and_then (truncate_value cmd 40)
               (\<lambda>short. Inr (Some (lit ''running: '' @ py_str R short)))
           else Inr (Some (lit ''running command...''))))"

text \<open>
  The nested item block; \<open>None\<close> when the source falls through to the turn events:
  \<^verbatim>\<open>item = raw.get("item")
if isinstance(item, dict):
    item_type = item.get("type") or ""
    if item_type == "reasoning": return "thinking..."
    if item_type in ("tool_call", "function_call"):
        name = item.get("name") or ""
        if name: return f"calling {name}..."
        return "calling tool..."
    if item_type in ("agent_message", "assistant_message", "message"):
        return "responding..."\<close>
\<close>

definition item_activity :: "(pyval \<Rightarrow> pystr) \<Rightarrow> pydict \<Rightarrow> pystr option" where
  "item_activity R raw =
     (case dget raw ''item'' of
        PDict item \<Rightarrow>
          (let item_type = py_or (dget item ''type'') (PStr []) in
           if is_lit item_type ''reasoning'' then Some (lit ''thinking...'')
           else if one_of item_type [''tool_call'', ''function_call''] then
             (let name = py_or (dget item ''name'') (PStr []) in
              if truthy name then Some (lit ''calling '' @ py_str R name @ lit ''...'')
              else Some (lit ''calling tool...''))
           else if one_of item_type [''agent_message'', ''assistant_message'', ''message'']
             then Some (lit ''responding...'')
           else None)
      | _ \<Rightarrow> None)"

text \<open>
  \<open>cb = raw.get("content_block", {})\<close> followed by \<open>cb.get("type")\<close>, and
  \<open>raw.get("delta", {}).get("stop_reason")\<close>: the default is used only when the key is
  absent, and \<open>.get\<close> on a value that is no dict raises \<open>AttributeError\<close>.
\<close>

definition sub_dict :: "pydict \<Rightarrow> string \<Rightarrow> py_error + pydict" where
  "sub_dict raw k =
     (case dget_default raw k (PDict []) of PDict d \<Rightarrow> Inr d | _ \<Rightarrow> Inl AttributeError)"

definition block_start_activity :: "(pyval \<Rightarrow> pystr) \<Rightarrow> pydict \<Rightarrow> py_error + pystr option" where
  "block_start_activity R raw =
     and_then (sub_dict raw ''content_block'')
       (\<lambda>cb.
          if is_lit (dget cb ''type'') ''tool_use'' then
            (let name = py_or (dget cb ''name'') (PStr []) in
             if truthy name then Inr (Some (lit ''calling '' @ py_str R name @ lit ''...''))
             else Inr (Some (lit ''calling tool...'')))
          else Inr (Some (lit ''generating...'')))"

definition message_delta_activity :: "(pyval \<Rightarrow> pystr) \<Rightarrow> pydict \<Rightarrow> py_error + pystr option" where
  "message_delta_activity R raw =
     and_then (sub_dict raw ''delta'')
       (\<lambda>delta.
          (let stop = dget delta ''stop_reason'' in
           if truthy stop then Inr (Some (lit ''stopped: '' @ py_str R stop)) else Inr None))"

text \<open>\<open>_extract_activity(raw)\<close>, its branches in the order of the source.\<close>

definition extract_activity :: "(pyval \<Rightarrow> pystr) \<Rightarrow> pydict \<Rightarrow> py_error + pystr option" where
  "extract_activity R raw =
     (let etype = py_or (py_or (dget raw ''type'') (dget raw ''event'')) (PStr []) in
      if is_lit etype ''reasoning'' then Inr (Some (lit ''thinking...''))
      else if one_of etype [''thinking'', ''thought''] then Inr (Some (lit ''thinking...''))
      else if one_of etype [''tool_call'', ''function_call'', ''tool_use''] then
        (let name = py_or (py_or (dget raw ''name'') (dget raw ''tool'')) (PStr []) in
         if truthy name then Inr (Some (lit ''calling '' @ py_str R name @ lit ''...''))
         else Inr (Some (lit ''calling tool...'')))
      else if is_lit etype ''exec.spawn'' then spawn_activity R raw
      else if is_lit etype ''exec.output'' then Inr (Some (lit ''command output...''))
      else if one_of etype [''file.write'', ''file.create'', ''write_file'']
        then file_activity raw ''writing''
      else if one_of etype [''file.read'', ''read_file''] then file_activity raw ''reading''
      else if one_of etype [''patch.apply'', ''edit'', ''apply_patch'']
        then file_activity raw ''editing''
      else
        (case item_activity R raw of
           Some a \<Rightarrow> Inr (Some a)
         | None \<Rightarrow>
             if is_lit etype ''thread.started'' then Inr (Some (lit ''started...''))
             else if is_lit etype ''turn.started'' then Inr (Some (lit ''processing...''))
             else if is_lit etype ''turn.completed'' then Inr (Some (lit ''turn done''))
             else if is_lit etype ''item.started'' then Inr (Some (lit ''working...''))
             else if is_lit etype ''item.completed'' then Inr (Some (lit ''item done''))
             else if is_lit etype ''content_block_start'' then block_start_activity R raw
             else if is_lit etype ''content_block_delta'' then Inr (Some (lit ''streaming...''))
             else if is_lit etype ''message_start'' then Inr (Some (lit ''responding...''))
             else if is_lit etype ''message_delta'' then message_delta_activity R raw
             else Inr None))"

section \<open>Item summarizer\<close>

text \<open>
  The tool-call branch looks for the first of a fixed list of keys that the argument
  dict has:
  \<^verbatim>\<open>for key in ("path", "file", "command", "cmd", "query", "url", "pattern"):
    if key in args:
        val = args[key]
        if isinstance(val, list):
            val = " ".join(str(v) for v in val[:3])
        detail = truncate(str(val), 35)
        break\<close>
\<close>

fun first_present :: "pydict \<Rightarrow> string list \<Rightarrow> pyval option" where
  "first_present args [] = None"
| "first_present args (k # ks) =
     (if has_key args k then Some (dget args k) else first_present args ks)"

definition call_detail :: "(pyval \<Rightarrow> pystr) \<Rightarrow> pyval \<Rightarrow> pystr" where
  "call_detail R args =
     (case args of
        PDict d \<Rightarrow>
          (case first_present d [''path'', ''file'', ''command'', ''cmd'', ''query'', ''url'', ''pattern''] of
             None \<Rightarrow> []
           | Some (PList xs) \<Rightarrow> truncate (join_strs R (take 3 xs)) 35
           | Some val \<Rightarrow> truncate (py_str R val) 35)
      | _ \<Rightarrow> [])"

definition summary_tool_call :: "(pyval \<Rightarrow> pystr) \<Rightarrow> pydict \<Rightarrow> int \<Rightarrow> py_error + pyval" where
  "summary_tool_call R item max_len =
     (let name = py_or (py_or (dget item ''name'') (dget item ''tool'')) (PStr (lit ''tool''));
          args = py_or (py_or (py_or (dget item ''arguments'') (dget item ''input''))
                   (dget item ''args'')) (PDict []);
          detail = call_detail R args
      in if detail \<noteq> []
         then Inr (PStr (truncate (py_str R name @ lit ''('' @ detail @ lit '')'') max_len))
         else Inr name)"

text \<open>\<open>text.split("\n")\<close> and the methods after it exist on a string only.\<close>

fun as_str :: "pyval \<Rightarrow> py_error + pystr" where
  "as_str (PStr s) = Inr s"
| "as_str v = Inl AttributeError"

text \<open>
  \<^verbatim>\<open>summary = item.get("summary") or ""
if summary:
    return f"thinking: {truncate(summary, 50)}"
text = item.get("text") or ""
if text:
    first = text.split("\n")[0].split(".")[0].strip()
    if first.startswith("**") and "**" in first[2:]:
        first = first.replace("**", "")
    return f"thinking: {truncate(first, 50)}"
return "reasoning"\<close>
\<close>

definition summary_reasoning :: "(pyval \<Rightarrow> pystr) \<Rightarrow> pydict \<Rightarrow> py_error + pyval" where
  "summary_reasoning R item =
     (let summary = py_or (dget item ''summary'') (PStr []) in
      if truthy summary then
        and_then (truncate_value summary 50)
          (\<lambda>t. Inr (PStr (lit ''thinking: '' @ py_str R t)))
      else
        (let text = py_or (dget item ''text'') (PStr []) in
         if truthy text then
           and_then (as_str text)
             (\<lambda>t. let first0 = strip (before_first 46 (before_first 10 t));
                       first = (if startswith first0 (lit ''**'') \<and> contains (lit ''**'') (drop 2 first0)
                                then remove_all (lit ''**'') first0 else first0)
                   in Inr (PStr (lit ''thinking: '' @ truncate first 50)))
         else Inr (PStr (lit ''reasoning''))))"

text \<open>
  \<^verbatim>\<open>text = item.get("text") or ""
if not text:
    content = item.get("content")
    if isinstance(content, list) and content:
        first = content[0]
        if isinstance(first, dict):
            text = first.get("text", "")
        elif isinstance(first, str):
            text = first
if text:
    first_line = text.split("\n")[0].strip()
    return f"message: {truncate(first_line, 50)}"
return "message"\<close>
\<close>

definition message_text :: "pydict \<Rightarrow> pyval" where
  "message_text item =
     (let text = py_or (dget item ''text'') (PStr []) in
      if truthy text then text
      else
        (case dget item ''content'' of
           PList (PDict first # rest) \<Rightarrow> dget_default first ''text'' (PStr [])
         | PList (PStr first # rest) \<Rightarrow> PStr first
         | _ \<Rightarrow> text))"

definition summary_message :: "pydict \<Rightarrow> py_error + pyval" where
  "summary_message item =
     (let text = message_text item in
      if truthy text then
        and_then (as_str text)
          (\<lambda>t. Inr (PStr (lit ''message: '' @ truncate (strip (before_first 10 t)) 50)))
      else Inr (PStr (lit ''message'')))"

text \<open>
  \<^verbatim>\<open>cmd = item.get("command") or item.get("cmd") or ""
if isinstance(cmd, list):
    cmd = " ".join(str(c) for c in cmd[:4])
return f"exec: {truncate(str(cmd), 50)}" if cmd else "exec"\<close>
\<close>

definition join_if_list :: "(pyval \<Rightarrow> pystr) \<Rightarrow> nat \<Rightarrow> pyval \<Rightarrow> pyval" where
  "join_if_list R n cmd = (case cmd of PList xs \<Rightarrow> PStr (join_strs R (take n xs)) | _ \<Rightarrow> cmd)"

definition summary_exec :: "(pyval \<Rightarrow> pystr) \<Rightarrow> pydict \<Rightarrow> py_error + pyval" where
  "summary_exec R item =
     (let cmd = join_if_list R 4 (py_or (py_or (dget item ''command'') (dget item ''cmd'')) (PStr [])) in
      if truthy cmd then Inr (PStr (lit ''exec: '' @ truncate (py_str R cmd) 50))
      else Inr (PStr (lit ''exec'')))"

text \<open>
  \<^verbatim>\<open>path = item.get("path") or item.get("file") or ""
fname = path.rsplit("/", 1)[-1] if path else ""
return f"read: {fname}" if fname else "read_file"\<close>
\<close>

definition summary_file :: "pydict \<Rightarrow> string \<Rightarrow> string \<Rightarrow> py_error + pyval" where
  "summary_file item prefix bare =
     (let path = py_or (py_or (dget item ''path'') (dget item ''file'')) (PStr []) in
      and_then (if truthy path then rsplit_last path else Inr [])
        (\<lambda>fname. if fname \<noteq> [] then Inr (PStr (lit prefix @ fname)) else Inr (PStr (lit bare))))"

text \<open>
  The shell branch unwraps \<open>bash -lc "..."\<close>:
  \<^verbatim>\<open>if "-lc" in cmd and '"' in cmd:
    start = cmd.find('-lc')
    if start >= 0:
        rest = cmd[start + 3:].strip().strip('"').strip("'")
        cmd = rest\<close>
  \<open>cmd\<close> is a truthy value that is no list here. On a string \<open>in\<close> is the substring
  test; on a dict it asks for a key, and \<open>find\<close> then raises; a boolean or an integer is
  not iterable.
\<close>

fun unwrap_lc :: "pyval \<Rightarrow> py_error + pyval" where
  "unwrap_lc (PStr s) =
     (if contains (lit ''-lc'') s \<and> contains [34] s then
        (case find_sub (lit ''-lc'') s of
           Some start \<Rightarrow> Inr (PStr (strip_char 39 (strip_char 34 (strip (drop (start + 3) s)))))
         | None \<Rightarrow> Inr (PStr s))
      else Inr (PStr s))"
| "unwrap_lc (PDict d) =
     (if map_of d (lit ''-lc'') \<noteq> None \<and> map_of d [34] \<noteq> None then Inl AttributeError
      else Inr (PDict d))"
| "unwrap_lc (PList xs) =
     (if PStr (lit ''-lc'') \<in> set xs \<and> PStr [34] \<in> set xs then Inl AttributeError
      else Inr (PList xs))"
| "unwrap_lc v = Inl TypeError"

text \<open>
  \<^verbatim>\<open>cmd = item.get("command") or item.get("cmd") or item.get("input") or ""
if isinstance(cmd, list):
    cmd = " ".join(str(c) for c in cmd[:3])
if cmd:
    ...
    return f"$ {truncate(str(cmd), 55)}"
return item_type\<close>
\<close>

definition summary_shell :: "(pyval \<Rightarrow> pystr) \<Rightarrow> pydict \<Rightarrow> pyval \<Rightarrow> py_error + pyval" where
  "summary_shell R item item_type =
     (let cmd = join_if_list R 3
            (py_or (py_or (py_or (dget item ''command'') (dget item ''cmd'')) (dget item ''input''))
               (PStr []))
      in if truthy cmd then
           and_then (unwrap_lc cmd)
             (\<lambda>c. Inr (PStr (lit ''$ '' @ truncate (py_str R c) 55)))
         else Inr item_type)"

text \<open>
  The fallback search. One pass over the fixed keys:
  \<^verbatim>\<open>for key in ("command", "cmd", "cmdline", "path", "file", "name", "input"):
    val = d.get(key)
    if isinstance(val, str) and val:
        return truncate(val, 45)
    if isinstance(val, list) and val:
        return truncate(" ".join(str(v) for v in val[:3]), 45)\<close>
  (\<open>Some\<close> is a \<open>return\<close>), then the nested dicts, at most to depth 2:
  \<^verbatim>\<open>for v in d.values():
    if isinstance(v, dict):
        result = find_detail(v, depth + 1)
        if result:
            return result
return ""\<close>
\<close>

fun scan_keys :: "(pyval \<Rightarrow> pystr) \<Rightarrow> pydict \<Rightarrow> string list \<Rightarrow> pystr option" where
  "scan_keys R d [] = None"
| "scan_keys R d (k # ks) =
     (case dget d k of
        PStr s \<Rightarrow> if s \<noteq> [] then Some (truncate s 45) else scan_keys R d ks
      | PList xs \<Rightarrow>
          if xs \<noteq> [] then Some (truncate (join_strs R (take 3 xs)) 45) else scan_keys R d ks
      | _ \<Rightarrow> scan_keys R d ks)"

fun first_result :: "('a \<Rightarrow> pystr) \<Rightarrow> 'a list \<Rightarrow> pystr" where
  "first_result f [] = []"
| "first_result f (x # xs) = (let r = f x in if r \<noteq> [] then r else first_result f xs)"

lemma first_result_cong [fundef_cong]:
  "xs = ys \<Longrightarrow> (\<And>x. x \<in> set ys \<Longrightarrow> f x = g x) \<Longrightarrow> first_result f xs = first_result g ys"
  by (induction ys arbitrary: xs) (auto simp: Let_def)

function find_detail :: "(pyval \<Rightarrow> pystr) \<Rightarrow> pydict \<Rightarrow> nat \<Rightarrow> pystr" where
  "find_detail R d depth =
     (if depth > 2 then []
      else
        (case scan_keys R d [''command'', ''cmd'', ''cmdline'', ''path'', ''file'', ''name'', ''input''] of
           Some r \<Rightarrow> r
         | None \<Rightarrow>
             first_result
               (\<lambda>v. case v of PDict d' \<Rightarrow> find_detail R d' (depth + 1) | _ \<Rightarrow> [])
               (map snd d)))"
  by pat_completeness auto
termination
  by (relation "measure (\<lambda>(R, d, depth). 3 - depth)") auto

declare find_detail.simps [simp del]

text \<open>
  \<^verbatim>\<open>detail = find_detail(item)
if detail:
    return f"{item_type}: {detail}" if item_type else detail
return item_type or "item"\<close>
\<close>

definition summary_fallback :: "(pyval \<Rightarrow> pystr) \<Rightarrow> pydict \<Rightarrow> pyval \<Rightarrow> py_error + pyval" where
  "summary_fallback R item item_type =
     (let detail = find_detail R item 0 in
      if detail \<noteq> [] then
        (if truthy item_type then Inr (PStr (py_str R item_type @ lit '': '' @ detail))
         else Inr (PStr detail))
      else Inr (py_or item_type (PStr (lit ''item''))))"

text \<open>
  \<open>_get_item_summary(item, max_len)\<close>. The result is what the source returns, which is
  not always a string: \<open>return name\<close> and \<open>return item_type or "item"\<close> hand back the
  payload's own value.
\<close>

definition get_item_summary :: "(pyval \<Rightarrow> pystr) \<Rightarrow> pydict \<Rightarrow> int \<Rightarrow> py_error + pyval" where
  "get_item_summary R item max_len =
     (let item_type = dget_default item ''type'' (PStr []) in
      if one_of item_type [''tool_call'', ''function_call'', ''tool_use'']
        then summary_tool_call R item max_len
      else if one_of item_type [''reasoning'', ''thinking''] then summary_reasoning R item
      else if one_of item_type [''agent_message'', ''assistant_message'', ''message'']
        then summary_message item
      else if is_lit item_type ''exec'' then summary_exec R item
      else if one_of item_type [''file_read'', ''read_file'']
        then summary_file item ''read: '' ''read_file''
      else if one_of item_type [''file_write'', ''write_file'', ''patch'', ''apply_patch'']
        then summary_file item ''write: '' ''write_file''
      else if one_of item_type [''shell'', ''bash'', ''command'', ''command_execution'', ''local_shell_call'']
        then summary_shell R item item_type
      else summary_fallback R item item_type)"

section \<open>Line renderer\<close>

text \<open>\<open>ProgressPrinter(stream_tokens)\<close>, with \<open>tty\<close> the value of \<open>sys.stderr.isatty()\<close>.\<close>

definition init :: "bool \<Rightarrow> bool \<Rightarrow> printer" where
  "init stream_tokens_arg tty =
     \<lparr> stream_tokens = stream_tokens_arg, label = [], status = [], activity = [],
       spinner_idx = 0, token_count = 0, event_count = 0, running = False, is_tty = tty,
       current_line = [], has_content = False, recent_activities = [],
       item_line_open = False, out = [] \<rparr>"

definition emit :: "stream \<Rightarrow> wkind \<Rightarrow> pystr \<Rightarrow> printer \<Rightarrow> printer" where
  "emit s k t p = p\<lparr>out := out p @ [Wr s k t]\<rparr>"

text \<open>\<open>print(t, file=s)\<close>: the text, then the line break.\<close>

definition print_line :: "stream \<Rightarrow> pystr \<Rightarrow> printer \<Rightarrow> printer" where
  "print_line s t p = emit s Text [10] (emit s Text t p)"

text \<open>The control sequence \<open>"\r\033[K"\<close> and the glyphs of the source.\<close>

definition clear_line :: pystr where
  "clear_line = [13, 27, 91, 75]"

definition SPINNER_FRAMES :: "pystr list" where
  "SPINNER_FRAMES = [[10251], [10265], [10297], [10296], [10300], [10292], [10278], [10279],
     [10247], [10255]]"

definition glyph_started :: pystr where
  "glyph_started = [9654]"

definition glyph_ok :: pystr where
  "glyph_ok = [10003]"

definition glyph_failed :: pystr where
  "glyph_failed = [10007]"

definition glyph_other :: pystr where
  "glyph_other = [9719]"

definition rule4 :: pystr where
  "rule4 = [9472, 9472, 9472, 9472]"

text \<open>
  \<^verbatim>\<open>spinner = self.SPINNER_FRAMES[self._spinner_idx % len(self.SPINNER_FRAMES)]
parts = [f"{spinner} {self._label}"]
if self._activity: parts.append(self._activity)
elif self._status: parts.append(self._status)
parts.append(f"[{elapsed}]")
if self._token_count > 0: parts.append(f"{self._token_count} tok")
if self._event_count > 0: parts.append(f"{self._event_count} ev")
return " ".join(parts)\<close>
\<close>

definition format_status_line :: "pystr \<Rightarrow> printer \<Rightarrow> pystr" where
  "format_status_line el p =
     join (lit '' '')
       ([SPINNER_FRAMES ! nat (spinner_idx p mod 10) @ lit '' '' @ label p]
        @ (if activity p \<noteq> [] then [activity p] else if status p \<noteq> [] then [status p] else [])
        @ [lit ''['' @ el @ lit '']'']
        @ (if token_count p > 0 then [str_int (token_count p) @ lit '' tok''] else [])
        @ (if event_count p > 0 then [str_int (event_count p) @ lit '' ev''] else []))"

text \<open>
  \<^verbatim>\<open>if not self._is_tty: return
if self._item_line_open: return
line = self._format_status_line()
max_width = 80
if len(line) > max_width:
    line = line[:max_width - 3] + "..."
sys.stderr.write(f"\r\033[K{line}")\<close>
\<close>

definition write_status_line :: "pystr \<Rightarrow> printer \<Rightarrow> printer" where
  "write_status_line el p =
     (if \<not> is_tty p then p
      else if item_line_open p then p
      else emit Stderr StatusDraw (clear_line @ fit_width (format_status_line el p) 80) p)"

text \<open>
  One iteration of \<open>_spinner_loop\<close>, under the lock:
  \<^verbatim>\<open>if self._running:
    self._spinner_idx += 1
    self._write_status_line()\<close>
\<close>

definition spinner_tick :: "pystr \<Rightarrow> printer \<Rightarrow> printer" where
  "spinner_tick el p =
     (if running p then write_status_line el (p\<lparr>spinner_idx := spinner_idx p + 1\<rparr>) else p)"

text \<open>\<open>stream.write(text)\<close>, and a line break unless \<open>text.endswith("\n")\<close>.\<close>

definition write_with_break :: "stream \<Rightarrow> pystr \<Rightarrow> printer \<Rightarrow> printer" where
  "write_with_break s text p =
     (let p1 = emit s Text text p in
      if \<not> ends_with_newline text then emit s Text [10] p1 else p1)"

text \<open>
  \<^verbatim>\<open>if self._is_tty:
    sys.stderr.write("\r\033[K")
    sys.stderr.write(text)
    if not text.endswith("\n"): sys.stderr.write("\n")
    self._has_content = True
    if self._running: self._write_status_line()
else:
    stream = sys.stderr if is_error else sys.stdout
    stream.write(text)
    if not text.endswith("\n"): stream.write("\n")\<close>
\<close>

definition flush_line :: "pystr \<Rightarrow> printer \<Rightarrow> pystr \<Rightarrow> bool \<Rightarrow> printer" where
  "flush_line el p text is_error =
     (if is_tty p then
        (let p1 = write_with_break Stderr text (emit Stderr Text clear_line p);
             p2 = p1\<lparr>has_content := True\<rparr>
         in if running p2 then write_status_line el p2 else p2)
      else write_with_break (if is_error then Stderr else Stdout) text p)"

text \<open>
  The loop of \<open>_update_streaming\<close>:
  \<^verbatim>\<open>while "\n" in self._current_line:
    line, self._current_line = self._current_line.split("\n", 1)
    if line:
        self._flush_line(line)\<close>
\<close>

lemma current_line_flush_line: "current_line (flush_line el p text e) = current_line p"
  by (simp add: flush_line_def write_with_break_def write_status_line_def emit_def Let_def)

function drain_lines :: "pystr \<Rightarrow> printer \<Rightarrow> printer" where
  "drain_lines el p =
     (if 10 \<in> set (current_line p) then
        (let line = before_first 10 (current_line p);
             p1 = p\<lparr>current_line := after_first 10 (current_line p)\<rparr>
         in drain_lines el (if line \<noteq> [] then flush_line el p1 line False else p1))
      else p)"
  by pat_completeness auto
termination
proof (relation "measure (\<lambda>(el, p). length (current_line p))")
  show "wf (measure (\<lambda>(el, p). length (current_line p)))"
    by simp
next
  fix el :: pystr and p :: printer and line :: pystr and p1 :: printer
  assume nl: "10 \<in> set (current_line p)"
    and p1: "p1 = p\<lparr>current_line := after_first 10 (current_line p)\<rparr>"
  have "dropWhile (\<lambda>c. c \<noteq> 10) (current_line p) \<noteq> []"
    using nl by auto
  then have "length (after_first 10 (current_line p)) < length (current_line p)"
    using length_dropWhile_le [of "\<lambda>c. c \<noteq> 10" "current_line p"]
    by (cases "dropWhile (\<lambda>c. c \<noteq> 10) (current_line p)") (auto simp: after_first_def)
  then show "((el, if line \<noteq> [] then flush_line el p1 line False else p1), (el, p))
      \<in> measure (\<lambda>(el, p). length (current_line p))"
    using p1 by (simp add: current_line_flush_line)
qed

declare drain_lines.simps [simp del]

text \<open>
  \<^verbatim>\<open>self._current_line += text
self._token_count += len(text.split())\<close>
  and then the loop.
\<close>

definition update_streaming :: "pystr \<Rightarrow> printer \<Rightarrow> pystr \<Rightarrow> printer" where
  "update_streaming el p text =
     drain_lines el
       (p\<lparr>current_line := current_line p @ text,
          token_count := token_count p + word_count text\<rparr>)"

text \<open>\<open>start(label)\<close>; the ticker it launches on a terminal is \<open>spinner_tick\<close>.\<close>

definition start :: "pystr \<Rightarrow> printer \<Rightarrow> pystr \<Rightarrow> printer" where
  "start el p label_arg =
     (let p1 = p\<lparr>label := label_arg, status := lit ''starting...'', activity := [],
                 token_count := 0, event_count := 0, spinner_idx := 0, running := True,
                 current_line := [], has_content := False, recent_activities := [],
                 item_line_open := False\<rparr>
      in if is_tty p1 then write_status_line el p1
         else print_line Stderr (lit ''[agent] '' @ label_arg) p1)"

text \<open>
  \<^verbatim>\<open>self._status = status
if self._is_tty and self._running:
    self._write_status_line()\<close>
\<close>

definition set_status :: "pystr \<Rightarrow> printer \<Rightarrow> pystr \<Rightarrow> printer" where
  "set_status el p status_arg =
     (let p1 = p\<lparr>status := status_arg\<rparr> in
      if is_tty p1 \<and> running p1 then write_status_line el p1 else p1)"

text \<open>
  \<^verbatim>\<open>self._activity = activity
if activity and (not self._recent_activities or self._recent_activities[-1] != activity):
    self._recent_activities.append(activity)
    if len(self._recent_activities) > 10:
        self._recent_activities.pop(0)
if self._is_tty and self._running:
    self._write_status_line()\<close>
\<close>

definition remember :: "pystr list \<Rightarrow> pystr \<Rightarrow> pystr list" where
  "remember recent a =
     (if a \<noteq> [] \<and> (recent = [] \<or> last recent \<noteq> a) then
        (let r = recent @ [a] in if length r > 10 then tl r else r)
      else recent)"

definition set_activity :: "pystr \<Rightarrow> printer \<Rightarrow> pystr \<Rightarrow> printer" where
  "set_activity el p a =
     (let p1 = p\<lparr>activity := a, recent_activities := remember (recent_activities p) a\<rparr> in
      if is_tty p1 \<and> running p1 then write_status_line el p1 else p1)"

section \<open>Item lines, turn markers and tool events\<close>

text \<open>
  \<^verbatim>\<open>item = payload.get("item", {})
summary = self._get_item_summary(item) if isinstance(item, dict) else "item"\<close>
  with the summary as the f-string prints it.
\<close>

definition item_summary :: "(pyval \<Rightarrow> pystr) \<Rightarrow> pydict \<Rightarrow> py_error + pystr" where
  "item_summary R payload =
     (case dget_default payload ''item'' (PDict []) of
        PDict item \<Rightarrow> and_then (get_item_summary R item 60) (\<lambda>s. Inr (py_str R s))
      | _ \<Rightarrow> Inr (lit ''item''))"

text \<open>
  \<^verbatim>\<open>if self._item_line_open:
    sys.stderr.write("\n")
    self._item_line_open = False\<close>
\<close>

definition close_open_line :: "printer \<Rightarrow> printer" where
  "close_open_line p =
     (if item_line_open p then (emit Stderr LineBreak [10] p)\<lparr>item_line_open := False\<rparr> else p)"

text \<open>The prefix \<open>"\r\033[K"\<close> that a terminal gets before a line.\<close>

definition tty_prefix :: "printer \<Rightarrow> pystr" where
  "tty_prefix p = (if is_tty p then clear_line else [])"

text \<open>
  \<open>_log_item_started(payload)\<close>:
  \<^verbatim>\<open>with self._lock:
    if self._item_line_open: ...
    if self._is_tty:
        sys.stderr.write(f"\r\033[K[{elapsed}] > {summary} ")
    else:
        sys.stderr.write(f"[{elapsed}] > {summary} ")
    self._item_line_open = True
    self._has_content = True\<close>
  (\<open>>\<close> stands for the glyph U+25B6 here.)
\<close>

definition log_item_started :: "(pyval \<Rightarrow> pystr) \<Rightarrow> pystr \<Rightarrow> printer \<Rightarrow> pydict \<Rightarrow> py_error + printer" where
  "log_item_started R el p payload =
     and_then (item_summary R payload)
       (\<lambda>summary.
          let p1 = close_open_line p;
              p2 = emit Stderr ItemOpen
                     (tty_prefix p1 @ lit ''['' @ el @ lit ''] '' @ glyph_started @ lit '' ''
                        @ summary @ lit '' '') p1
          in Inr (p2\<lparr>item_line_open := True, has_content := True\<rparr>))"

text \<open>
  \<open>_log_item_completed(payload)\<close>:
  \<^verbatim>\<open>with self._lock:
    if self._item_line_open:
        sys.stderr.write(f"v ({elapsed})\n")
        self._item_line_open = False
    else:
        if self._is_tty:
            sys.stderr.write(f"\r\033[K[{elapsed}] v {summary}\n")
        else:
            sys.stderr.write(f"[{elapsed}] v {summary}\n")\<close>
  (\<open>v\<close> stands for the glyph U+2713 here.)
\<close>

definition log_item_completed :: "(pyval \<Rightarrow> pystr) \<Rightarrow> pystr \<Rightarrow> printer \<Rightarrow> pydict \<Rightarrow> py_error + printer" where
  "log_item_completed R el p payload =
     and_then (item_summary R payload)
       (\<lambda>summary.
          if item_line_open p then
            Inr ((emit Stderr ItemClose (glyph_ok @ lit '' ('' @ el @ lit '')'' @ [10]) p)
                   \<lparr>item_line_open := False\<rparr>)
          else
            Inr (emit Stderr Completed
                   (tty_prefix p @ lit ''['' @ el @ lit ''] '' @ glyph_ok @ lit '' '' @ summary @ [10])
                   p))"

text \<open>\<open>_log_turn_event(etype)\<close>.\<close>

definition log_turn_event :: "pystr \<Rightarrow> printer \<Rightarrow> pyval \<Rightarrow> printer" where
  "log_turn_event el p etype =
     (let p1 = close_open_line p;
          marker = (if is_lit etype ''turn.started'' then rule4 @ lit '' turn started '' @ rule4
                    else rule4 @ lit '' turn completed '' @ rule4);
          p2 = emit Stderr Text (tty_prefix p1 @ lit ''['' @ el @ lit ''] '' @ marker @ [10]) p1
      in p2\<lparr>has_content := True\<rparr>)"

text \<open>
  The detail of a tool use:
  \<^verbatim>\<open>for key in ("command", "pattern", "file_path", "path", "glob", "description"):
    val = inp.get(key)
    if val:
        detail = str(val)[:45]
        if len(str(val)) > 45:
            detail += "..."
        break\<close>
  which is \<open>truncate(str(val), 45)\<close>.
\<close>

fun first_truthy :: "pydict \<Rightarrow> string list \<Rightarrow> pyval option" where
  "first_truthy d [] = None"
| "first_truthy d (k # ks) = (if truthy (dget d k) then Some (dget d k) else first_truthy d ks)"

definition tool_use_detail :: "(pyval \<Rightarrow> pystr) \<Rightarrow> pyval \<Rightarrow> pystr" where
  "tool_use_detail R inp =
     (case inp of
        PDict d \<Rightarrow>
          (case first_truthy d [''command'', ''pattern'', ''file_path'', ''path'', ''glob'', ''description''] of
             Some val \<Rightarrow> truncate (py_str R val) 45
           | None \<Rightarrow> [])
      | _ \<Rightarrow> [])"

text \<open>
  The body of the loop of \<open>_log_claude_tool_use\<close> for one element of the content list;
  the block under the lock is its own critical section for every element.
\<close>

definition tool_use_item :: "(pyval \<Rightarrow> pystr) \<Rightarrow> pystr \<Rightarrow> printer \<Rightarrow> pyval \<Rightarrow> printer" where
  "tool_use_item R el p item =
     (case item of
        PDict d \<Rightarrow>
          if \<not> is_lit (dget d ''type'') ''tool_use'' then p
          else
            (let name = dget_default d ''name'' (PStr (lit ''tool''));
                 detail = tool_use_detail R (dget_default d ''input'' (PDict []));
                 p1 = close_open_line p;
                 line = (if detail \<noteq> []
                         then lit ''['' @ el @ lit ''] '' @ glyph_started @ lit '' '' @ py_str R name
                                @ lit '': '' @ detail
                         else lit ''['' @ el @ lit ''] '' @ glyph_started @ lit '' '' @ py_str R name);
                 p2 = emit Stderr ItemOpen (tty_prefix p1 @ line @ lit '' '') p1
             in p2\<lparr>item_line_open := True, has_content := True\<rparr>)
      | _ \<Rightarrow> p)"

text \<open>
  \<^verbatim>\<open>message = payload.get("message", {})
content = message.get("content", [])
if not isinstance(content, list):
    return
for item in content: ...\<close>
\<close>

definition log_claude_tool_use :: "(pyval \<Rightarrow> pystr) \<Rightarrow> pystr \<Rightarrow> printer \<Rightarrow> pydict \<Rightarrow> py_error + printer" where
  "log_claude_tool_use R el p payload =
     and_then (sub_dict payload ''message'')
       (\<lambda>message.
          case dget_default message ''content'' (PList []) of
            PList content \<Rightarrow> Inr (foldl (tool_use_item R el) p content)
          | _ \<Rightarrow> Inr p)"

text \<open>
  \<open>isinstance(item, dict) and item.get("type") == "tool_result"\<close> and
  \<open>isinstance(item, dict) and item.get("is_error")\<close> for an element of the content list.
\<close>

definition is_tool_result :: "pyval \<Rightarrow> bool" where
  "is_tool_result v = (case v of PDict d \<Rightarrow> is_lit (dget d ''type'') ''tool_result'' | _ \<Rightarrow> False)"

definition has_error_flag :: "pyval \<Rightarrow> bool" where
  "has_error_flag v = (case v of PDict d \<Rightarrow> truthy (dget d ''is_error'') | _ \<Rightarrow> False)"

text \<open>
  \<open>_log_claude_tool_result(payload)\<close>:
  \<^verbatim>\<open>has_result = any(... for item in content)
if not has_result:
    return
is_error = any(... for item in content)
with self._lock:
    if self._item_line_open:
        mark = "x" if is_error else "v"
        sys.stderr.write(f"{mark} ({elapsed})\n")
        self._item_line_open = False\<close>
  (\<open>x\<close> and \<open>v\<close> stand for the glyphs U+2717 and U+2713 here.)
\<close>

definition log_claude_tool_result :: "pystr \<Rightarrow> printer \<Rightarrow> pydict \<Rightarrow> py_error + printer" where
  "log_claude_tool_result el p payload =
     and_then (sub_dict payload ''message'')
       (\<lambda>message.
          case dget_default message ''content'' (PList []) of
            PList content \<Rightarrow>
              if \<not> list_ex is_tool_result content then Inr p
              else if item_line_open p then
                Inr ((emit Stderr ItemClose
                        ((if list_ex has_error_flag content then glyph_failed else glyph_ok)
                           @ lit '' ('' @ el @ lit '')'' @ [10]) p)
                       \<lparr>item_line_open := False\<rparr>)
              else Inr p
          | _ \<Rightarrow> Inr p)"

section \<open>Event dispatcher\<close>

text \<open>\<open>payload.get(...)\<close> on a value that is no dict raises \<open>AttributeError\<close>.\<close>

fun as_dict :: "pyval \<Rightarrow> py_error + pydict" where
  "as_dict (PDict d) = Inr d"
| "as_dict v = Inl AttributeError"

text \<open>Membership in a \<open>set\<close> literal hashes the value: a list or a dict raises \<open>TypeError\<close>.\<close>

fun hashable :: "pyval \<Rightarrow> bool" where
  "hashable (PList xs) = False"
| "hashable (PDict d) = False"
| "hashable v = True"

text \<open>
  \<open>short = (name[:30] + "...") if len(str(name)) > 30 else name\<close>: a value that is no
  string and prints longer than 30 characters raises at the slice.
\<close>

definition brief_short :: "(pyval \<Rightarrow> pystr) \<Rightarrow> pyval \<Rightarrow> py_error + pyval" where
  "brief_short R name =
     (case name of
        PStr s \<Rightarrow> Inr (PStr (truncate s 30))
      | _ \<Rightarrow> if int (length (py_str R name)) > 30 then Inl TypeError else Inr name)"

text \<open>The text of an optional activity: \<open>None\<close> and \<open>""\<close> are both falsy.\<close>

definition opt_text :: "pystr option \<Rightarrow> pystr" where
  "opt_text a = (case a of None \<Rightarrow> [] | Some t \<Rightarrow> t)"

text \<open>\<open>_log_event_brief(etype, payload, activity)\<close>, called with a truthy \<open>etype\<close>.\<close>

definition log_event_brief ::
  "(pyval \<Rightarrow> pystr) \<Rightarrow> pystr \<Rightarrow> printer \<Rightarrow> pyval \<Rightarrow> pyval \<Rightarrow> pystr option \<Rightarrow> py_error + printer" where
  "log_event_brief R el p etype payload act =
     (if \<not> hashable etype then Inl TypeError
      else if one_of etype [''message'', ''content_block_delta'', ''message_delta''] then Inr p
      else if one_of etype [''item.started'', ''item.completed'', ''turn.started'',
                ''turn.completed'', ''assistant'', ''user''] then Inr p
      else if opt_text act \<noteq> [] then
        Inr (print_line Stderr (lit ''['' @ el @ lit ''] '' @ opt_text act) p)
      else if one_of etype [''exec.spawn'', ''tool_call'', ''function_call''] then
        and_then (as_dict payload)
          (\<lambda>d. let name0 = py_or (py_or (py_or (dget d ''name'') (dget d ''command''))
                               (dget d ''tool'')) (PStr [])
                in and_then
                     (case name0 of
                        PList xs \<Rightarrow> and_then (join_values (take 2 xs)) (\<lambda>s. Inr (PStr s))
                      | _ \<Rightarrow> Inr name0)
                     (\<lambda>name. and_then (brief_short R name)
                        (\<lambda>short. Inr (print_line Stderr
                           (lit ''['' @ el @ lit ''] '' @ py_str R etype @ lit '': '' @ py_str R short)
                           p))))
      else
        and_then (as_str etype)
          (\<lambda>t. if startswith t (lit ''file.'') \<or> one_of etype [''read_file'', ''write_file'', ''apply_patch'']
                then
                  and_then (as_dict payload)
                    (\<lambda>d. let path = py_or (py_or (dget d ''path'') (dget d ''file'')) (PStr []) in
                          and_then (if truthy path then rsplit_last path else Inr [])
                            (\<lambda>fname. Inr (print_line Stderr
                               (lit ''['' @ el @ lit ''] '' @ t @ lit '': '' @ fname) p)))
                else Inr p))"

text \<open>
  The first part of \<open>on_event\<close>:
  \<^verbatim>\<open>activity = None
if isinstance(payload, dict):
    activity = _extract_activity(payload)
    if activity:
        self.set_activity(activity)\<close>
\<close>

definition note_activity ::
  "(pyval \<Rightarrow> pystr) \<Rightarrow> pystr \<Rightarrow> printer \<Rightarrow> pyval \<Rightarrow> py_error + (pystr option \<times> printer)" where
  "note_activity R el p payload =
     (case payload of
        PDict d \<Rightarrow>
          and_then (extract_activity R d)
            (\<lambda>a. Inr (a, if opt_text a \<noteq> [] then set_activity el p (opt_text a) else p))
      | _ \<Rightarrow> Inr (None, p))"

text \<open>
  The dispatch on the event type:
  \<^verbatim>\<open>if etype == "item.started" and isinstance(payload, dict): self._log_item_started(payload)
elif etype == "item.completed" and isinstance(payload, dict): self._log_item_completed(payload)
elif etype in ("turn.started", "turn.completed"): self._log_turn_event(etype)
elif etype == "assistant" and isinstance(payload, dict): self._log_claude_tool_use(payload)
elif etype == "user" and isinstance(payload, dict): self._log_claude_tool_result(payload)
elif not self._is_tty and etype: self._log_event_brief(etype, payload, activity)\<close>
\<close>

definition dispatch ::
  "(pyval \<Rightarrow> pystr) \<Rightarrow> pystr \<Rightarrow> printer \<Rightarrow> pyval \<Rightarrow> pyval \<Rightarrow> pystr option \<Rightarrow> py_error + printer" where
  "dispatch R el p etype payload act =
     (case payload of
        PDict d \<Rightarrow>
          if is_lit etype ''item.started'' then log_item_started R el p d
          else if is_lit etype ''item.completed'' then log_item_completed R el p d
          else if one_of etype [''turn.started'', ''turn.completed''] then Inr (log_turn_event el p etype)
          else if is_lit etype ''assistant'' then log_claude_tool_use R el p d
          else if is_lit etype ''user'' then log_claude_tool_result el p d
          else if \<not> is_tty p \<and> truthy etype then log_event_brief R el p etype payload act
          else Inr p
      | _ \<Rightarrow>
          if one_of etype [''turn.started'', ''turn.completed''] then Inr (log_turn_event el p etype)
          else if \<not> is_tty p \<and> truthy etype then log_event_brief R el p etype payload act
          else Inr p)"

text \<open>
  \<^verbatim>\<open>if etype == "error":
    msg = payload.get("message") or payload.get("error") or str(payload)
    self._flush_line(f"[error] {msg}", is_error=True)
    self.set_status("error")
    self.set_activity("")
elif self.stream_tokens and isinstance(payload, dict):
    text = payload.get("text")
    if isinstance(text, str) and text:
        self._update_streaming(text)
        if not self._activity:
            self.set_status("streaming...")\<close>
\<close>

definition error_or_stream ::
  "(pyval \<Rightarrow> pystr) \<Rightarrow> pystr \<Rightarrow> printer \<Rightarrow> pyval \<Rightarrow> pyval \<Rightarrow> py_error + printer" where
  "error_or_stream R el p etype payload =
     (if is_lit etype ''error'' then
        and_then (as_dict payload)
          (\<lambda>d. let msg = py_or (py_or (dget d ''message'') (dget d ''error'')) (PStr (py_str R payload));
                    p1 = flush_line el p (lit ''[error] '' @ py_str R msg) True;
                    p2 = set_status el p1 (lit ''error'')
                in Inr (set_activity el p2 []))
      else if stream_tokens p then
        (case payload of
           PDict d \<Rightarrow>
             (case dget d ''text'' of
                PStr text \<Rightarrow>
                  if text \<noteq> [] then
                    (let p1 = update_streaming el p text in
                     Inr (if activity p1 = [] then set_status el p1 (lit ''streaming...'') else p1))
                  else Inr p
              | _ \<Rightarrow> Inr p)
         | _ \<Rightarrow> Inr p)
      else Inr p)"

text \<open>
  \<^verbatim>\<open>if not self._activity:
    if etype in ("thread.started", "turn.started"): self.set_status("processing...")
    elif etype == "turn.completed": self.set_status("turn completed")
    elif etype == "item.completed": self.set_status("item completed")\<close>
\<close>

definition fallback_status :: "pystr \<Rightarrow> printer \<Rightarrow> pyval \<Rightarrow> printer" where
  "fallback_status el p etype =
     (if activity p = [] then
        (if one_of etype [''thread.started'', ''turn.started''] then set_status el p (lit ''processing...'')
         else if is_lit etype ''turn.completed'' then set_status el p (lit ''turn completed'')
         else if is_lit etype ''item.completed'' then set_status el p (lit ''item completed'')
         else p)
      else p)"

text \<open>
  \<open>on_event(event)\<close>. An exception leaves \<open>on_event\<close> and reaches the caller; the model
  returns it and does not follow the printer further.
\<close>

definition on_event :: "(pyval \<Rightarrow> pystr) \<Rightarrow> pystr \<Rightarrow> printer \<Rightarrow> pydict \<Rightarrow> py_error + printer" where
  "on_event R el p event =
     (let p0 = p\<lparr>event_count := event_count p + 1\<rparr>;
          etype = dget event ''type'';
          payload = dget_default event ''payload'' (PDict [])
      in and_then (note_activity R el p0 payload)
           (\<lambda>(act, p1).
              and_then (dispatch R el p1 etype payload act)
                (\<lambda>p2. and_then (error_or_stream R el p2 etype payload)
                   (\<lambda>p3. Inr (fallback_status el p3 etype)))))"

text \<open>
  \<open>done(status, elapsed_ms)\<close>; \<open>secs\<close> is the text of \<open>{elapsed_s:.1f}\<close>, a float format
  that is not modelled.
\<close>

definition done_run :: "pystr \<Rightarrow> pystr \<Rightarrow> printer \<Rightarrow> pystr \<Rightarrow> printer" where
  "done_run el secs p status_arg =
     (let p1 = close_open_line (p\<lparr>running := False\<rparr>);
          p2 = (if current_line p1 \<noteq> []
                then (flush_line el p1 (current_line p1) False)\<lparr>current_line := []\<rparr> else p1);
          p3 = (if is_tty p2 then emit Stderr Text clear_line p2 else p2);
          icon = (if status_arg = lit ''success'' then glyph_ok
                  else if status_arg = lit ''error'' then glyph_failed else glyph_other);
          final_msg = icon @ lit '' '' @ label p3 @ lit '' '' @ status_arg @ lit '' (''
                        @ secs @ lit ''s)''
      in if has_content p3 \<or> \<not> is_tty p3 then print_line Stderr final_msg p3
         else print_line Stderr ([10] @ final_msg) p3)"

section \<open>Reading the output\<close>

fun kind_of :: "wr \<Rightarrow> wkind" where
  "kind_of (Wr s k t) = k"

text \<open>The permanent output: every write but the redraws of the status line, in order.\<close>

definition permanent :: "wr list \<Rightarrow> wr list" where
  "permanent ws = filter (\<lambda>w. kind_of w \<noteq> StatusDraw) ws"

text \<open>
  Whether an item line is open in the output after one more write: an item line opens
  it, the completion mark and the forced line break close it.
\<close>

definition open_next :: "bool \<Rightarrow> wr \<Rightarrow> bool" where
  "open_next b w =
     (case kind_of w of ItemOpen \<Rightarrow> True | ItemClose \<Rightarrow> False | LineBreak \<Rightarrow> False | _ \<Rightarrow> b)"

fun open_after :: "bool \<Rightarrow> wr list \<Rightarrow> bool" where
  "open_after b [] = b"
| "open_after b (w # ws) = open_after (open_next b w) ws"

text \<open>
  A write is in order when, with an item line open, it is neither a status line nor a
  second item line, and when it closes an item line only where one is open.
\<close>

definition write_ok :: "bool \<Rightarrow> wr \<Rightarrow> bool" where
  "write_ok b w =
     (case kind_of w of
        StatusDraw \<Rightarrow> \<not> b
      | ItemOpen \<Rightarrow> \<not> b
      | ItemClose \<Rightarrow> b
      | LineBreak \<Rightarrow> b
      | _ \<Rightarrow> True)"

fun stream_ok :: "bool \<Rightarrow> wr list \<Rightarrow> bool" where
  "stream_ok b [] = True"
| "stream_ok b (w # ws) = (write_ok b w \<and> stream_ok (open_next b w) ws)"

text \<open>
  The states of a run. The ticker and the caller's thread take turns at the
  granularity of the critical sections, and of the single writes and field assignments
  outside the lock; a state is reachable when it results from \<open>start\<close> on a fresh
  printer by any sequence of these steps, in any order. Every interleaving of ticks
  with the steps of \<open>on_event\<close>, \<open>set_status\<close>, \<open>set_activity\<close> and \<open>done\<close> is such a
  sequence. \<open>start\<close> may be called again when no item line is open.
\<close>

inductive reachable :: "printer \<Rightarrow> bool" where
  r_start: "reachable (start el (init tokens tty) label_arg)"
| r_restart: "reachable p \<Longrightarrow> \<not> item_line_open p \<Longrightarrow> reachable (start el p label_arg)"
| r_tick: "reachable p \<Longrightarrow> reachable (spinner_tick el p)"
| r_set_status: "reachable p \<Longrightarrow> reachable (set_status el p s)"
| r_set_activity: "reachable p \<Longrightarrow> reachable (set_activity el p a)"
| r_flush_line: "reachable p \<Longrightarrow> reachable (flush_line el p text e)"
| r_item_started: "reachable p \<Longrightarrow> log_item_started R el p payload = Inr p' \<Longrightarrow> reachable p'"
| r_item_completed: "reachable p \<Longrightarrow> log_item_completed R el p payload = Inr p' \<Longrightarrow> reachable p'"
| r_turn_event: "reachable p \<Longrightarrow> reachable (log_turn_event el p etype)"
| r_tool_use: "reachable p \<Longrightarrow> reachable (tool_use_item R el p item)"
| r_tool_result: "reachable p \<Longrightarrow> log_claude_tool_result el p payload = Inr p' \<Longrightarrow> reachable p'"
| r_close: "reachable p \<Longrightarrow> reachable (close_open_line p)"
| r_print: "reachable p \<Longrightarrow> reachable (emit s Text t p)"
| r_event_count: "reachable p \<Longrightarrow> reachable (p\<lparr>event_count := n\<rparr>)"
| r_token_count: "reachable p \<Longrightarrow> reachable (p\<lparr>token_count := n\<rparr>)"
| r_current_line: "reachable p \<Longrightarrow> reachable (p\<lparr>current_line := buf\<rparr>)"
| r_stop: "reachable p \<Longrightarrow> reachable (p\<lparr>running := False\<rparr>)"

text \<open>
  The flag and the output agree: the writes so far are in order, and an item line is
  open in the output exactly when \<open>_item_line_open\<close> is set.
\<close>

definition in_order :: "printer \<Rightarrow> bool" where
  "in_order p = (stream_ok False (out p) \<and> open_after False (out p) = item_line_open p)"

text \<open>The event \<open>{"type": "error", "payload": {"message": "disk full"}}\<close>.\<close>

definition error_event :: pydict where
  "error_event = [(lit ''type'', PStr (lit ''error'')),
                  (lit ''payload'', PDict [(lit ''message'', PStr (lit ''disk full''))])]"

text \<open>
  The writes that open, close or complete an item line, in order: what is left of the
  output when the status line and the other text are taken away.
\<close>

definition item_writes :: "wr list \<Rightarrow> wr list" where
  "item_writes ws = filter (\<lambda>w. kind_of w \<in> {ItemOpen, ItemClose, LineBreak, Completed}) ws"

text \<open>A step from \<open>p\<close> to \<open>q\<close> that leaves the item lines, the flag and the mode alone.\<close>

definition same_items :: "printer \<Rightarrow> printer \<Rightarrow> bool" where
  "same_items p q = (item_writes (out q) = item_writes (out p)
     \<and> item_line_open q = item_line_open p \<and> is_tty q = is_tty p)"




text \<open>
  A stand-in for \<open>repr\<close> where a function is evaluated at a concrete input that prints
  no container.
\<close>

definition no_repr :: "pyval \<Rightarrow> pystr" where
  "no_repr v = []"

section \<open>Facts about strings\<close>

lemma lit_eq [simp]: "(lit a = lit b) = (a = b)"
  unfolding lit_def by (simp add: inj_map_eq_map inj_on_def)

lemma length_lit [simp]: "length (lit s) = length s"
  by (simp add: lit_def)

lemma lit_Nil [simp]: "lit [] = []"
  by (simp add: lit_def)

lemma lit_eq_Nil [simp]: "(lit s = []) = (s = [])"
  by (simp add: lit_def)

lemma Nil_eq_lit [simp]: "([] = lit s) = (s = [])"
  by (simp add: lit_def)

lemma lit_append: "lit a @ lit b = lit (a @ b)" "lit a @ lit b @ r = lit (a @ b) @ r"
  by (simp_all add: lit_def)

section \<open>Truncation is bounded and idempotent\<close>

lemma truncate_length:
  assumes "0 \<le> n" and "n < int (length s)"
  shows "int (length (truncate s n)) = n + 3"
  using assms by (simp add: truncate_def slice_to_def)

lemma truncate_idem:
  assumes "0 \<le> n"
  shows "truncate (truncate s n) n = truncate s n"
  using assms by (auto simp: truncate_def slice_to_def)

lemma fit_width_length:
  assumes "3 \<le> w" and "w < int (length s)"
  shows "int (length (fit_width s w)) = w"
  using assms by (simp add: fit_width_def slice_to_def)

lemma fit_width_idem:
  assumes "3 \<le> w"
  shows "fit_width (fit_width s w) w = fit_width s w"
  using assms by (auto simp: fit_width_def slice_to_def)

text \<open>
  Claim C2, as amended. For every string \<open>s\<close> and every limit \<open>n \<ge> 0\<close> with
  \<open>len(s) > n\<close>, the summarizer's \<open>truncate\<close> returns a string whose length is exactly \<open>n\<close> plus
  the length of the ellipsis marker, and truncating the result again at \<open>n\<close> returns it
  unchanged. The status line's cut at 80 columns keeps the marker inside the
  width: a line longer than 80 becomes exactly 80 characters long (77 and the marker),
  and cutting it again changes nothing.
\<close>

theorem truncation_bounded_idempotent:
  "(0 \<le> n \<and> n < int (length s) \<longrightarrow>
      int (length (truncate s n)) = n + int (length (lit ''...'')) \<and>
      truncate (truncate s n) n = truncate s n)
   \<and> (80 < int (length line) \<longrightarrow>
      int (length (fit_width line 80)) = 80 \<and>
      fit_width (fit_width line 80) 80 = fit_width line 80)"
  using truncate_length [of n s] truncate_idem [of n s]
    fit_width_length [of 80 line] fit_width_idem [of 80 line]
  by simp

theorem truncation_bounded_idempotent_witness:
  "(0::int) \<le> 3 \<and> 3 < int (length (lit ''abcdef'')) \<and>
   truncate (lit ''abcdef'') 3 = lit ''abc...'' \<and>
   int (length (truncate (lit ''abcdef'') 3)) = 3 + int (length (lit ''...'')) \<and>
   truncate (truncate (lit ''abcdef'') 3) 3 = truncate (lit ''abcdef'') 3 \<and>
   80 < int (length (replicate 81 (120::nat))) \<and>
   int (length (fit_width (replicate 81 120) 80)) = 80 \<and>
   fit_width (fit_width (replicate 81 120) 80) 80 = fit_width (replicate 81 120) 80"
  using truncation_bounded_idempotent [of 3 "lit ''abcdef''" "replicate 81 120"]
  by (simp add: truncate_def slice_to_def lit_def)

text \<open>
  The claim as it was stated fails in two places. The status line of 81 characters is
  cut to 80, not to 80 plus the marker. And \<open>limit\<close> is a Python integer: at \<open>-1\<close> the
  slice \<open>s[:-1]\<close> drops one character, so \<open>"ab"\<close> becomes \<open>"a..."\<close> of length 4, and
  truncating again gives \<open>"a....."\<close>.
\<close>

theorem truncation_counterexample:
  "80 < int (length (replicate 81 (120::nat))) \<and>
   int (length (fit_width (replicate 81 120) 80)) \<noteq> 80 + int (length (lit ''...'')) \<and>
   -1 < int (length (lit ''ab'')) \<and>
   int (length (truncate (lit ''ab'') (-1))) \<noteq> -1 + int (length (lit ''...'')) \<and>
   truncate (truncate (lit ''ab'') (-1)) (-1) \<noteq> truncate (lit ''ab'') (-1)"
  by (simp add: fit_width_def truncate_def slice_to_def)

section \<open>The summarizer and the extractor at concrete payloads\<close>

lemmas value_defs = dget_def dget_default_def has_key_def is_lit_def one_of_def py_or_def
  and_then_def

lemmas summary_defs = get_item_summary_def summary_tool_call_def call_detail_def
  summary_reasoning_def summary_message_def message_text_def summary_exec_def
  summary_file_def summary_shell_def summary_fallback_def join_if_list_def join_strs_def

lemmas string_defs = truncate_def slice_to_def contains_def startswith_def strip_def
  strip_char_def strip_where_def before_first_def after_first_def basename_def is_space_def

text \<open>
  Claim C1, as amended. A shell item whose command is the string \<open>bash -lc "echo hi"\<close>
  is summarized as \<open>$ echo hi\<close>: the flag and the quotes around the payload are
  stripped. The unwrapping is guarded by \<open>'"' in cmd\<close>, so for the list
  \<open>["bash", "-lc", "echo hi"]\<close>, whose joined text \<open>bash -lc echo hi\<close> has no double
  quote, the summary is \<open>$ bash -lc echo hi\<close>.
\<close>

theorem shell_summary_lc:
  "get_item_summary R
     [(lit ''type'', PStr (lit ''shell'')),
      (lit ''command'', PStr (lit ''bash -lc '' @ [34] @ lit ''echo hi'' @ [34]))] 60
     = Inr (PStr (lit ''$ echo hi''))
   \<and> get_item_summary R
     [(lit ''type'', PStr (lit ''shell'')),
      (lit ''command'', PList [PStr (lit ''bash''), PStr (lit ''-lc''), PStr (lit ''echo hi'')])] 60
     = Inr (PStr (lit ''$ bash -lc echo hi''))"
  by (simp add: summary_defs value_defs string_defs lit_def)

text \<open>The list of the claim is not summarized as \<open>$ echo hi\<close>.\<close>

theorem shell_summary_lc_counterexample:
  "get_item_summary no_repr
     [(lit ''type'', PStr (lit ''shell'')),
      (lit ''command'', PList [PStr (lit ''bash''), PStr (lit ''-lc''), PStr (lit ''echo hi'')])] 60
     \<noteq> Inr (PStr (lit ''$ echo hi''))"
  by (simp add: summary_defs value_defs string_defs lit_def)

text \<open>
  Where no marker is recognized, neither in the event type nor in a nested item, the
  extractor returns \<open>None\<close>.
\<close>

lemma extract_activity_no_marker:
  assumes "\<not> one_of (py_or (py_or (dget raw ''type'') (dget raw ''event'')) (PStr []))
      [''reasoning'', ''thinking'', ''thought'', ''tool_call'', ''function_call'', ''tool_use'',
       ''exec.spawn'', ''exec.output'', ''file.write'', ''file.create'', ''write_file'',
       ''file.read'', ''read_file'', ''patch.apply'', ''edit'', ''apply_patch'',
       ''thread.started'', ''turn.started'', ''turn.completed'', ''item.started'',
       ''item.completed'', ''content_block_start'', ''content_block_delta'', ''message_start'',
       ''message_delta'']"
    and "item_activity R raw = None"
  shows "extract_activity R raw = Inr None"
  using assms by (simp add: extract_activity_def one_of_def Let_def)

text \<open>
  Claim C5 says that the activity extractor never raises, whatever the types of the
  payload's fields. The source raises: \<open>" ".join(cmd[:3])\<close> on a command list with an
  element that is no string (\<open>{"type": "exec.spawn", "command": [1]}\<close>),
  \<open>path.rsplit\<close> on a path that is no string, and \<open>cb.get\<close> on a \<open>content_block\<close> that
  is no dict.
\<close>

theorem extract_activity_raises:
  "extract_activity R
     [(lit ''type'', PStr (lit ''exec.spawn'')), (lit ''command'', PList [PInt 1])]
     = Inl TypeError
   \<and> extract_activity R
     [(lit ''type'', PStr (lit ''file.read'')), (lit ''path'', PInt 5)]
     = Inl AttributeError
   \<and> extract_activity R
     [(lit ''type'', PStr (lit ''content_block_start'')), (lit ''content_block'', PNone)]
     = Inl AttributeError"
  by (simp add: extract_activity_def spawn_activity_def file_activity_def item_activity_def
      block_start_activity_def sub_dict_def join_values_def value_defs)

text \<open>
  Claim C6 says that the item summarizer returns a string and never raises, whatever
  the types of the item's fields. The source raises at \<open>"-lc" in cmd\<close> for a shell
  command that is an integer (\<open>{"type": "shell", "command": 5}\<close>) and at \<open>text.split\<close>
  for a reasoning text that is no string, and \<open>return name\<close> hands back the integer of
  \<open>{"type": "tool_call", "name": 5}\<close>.
\<close>

theorem get_item_summary_raises:
  "get_item_summary R [(lit ''type'', PStr (lit ''shell'')), (lit ''command'', PInt 5)] 60
     = Inl TypeError
   \<and> get_item_summary R [(lit ''type'', PStr (lit ''reasoning'')), (lit ''text'', PInt 5)] 60
     = Inl AttributeError
   \<and> get_item_summary R [(lit ''type'', PStr (lit ''tool_call'')), (lit ''name'', PInt 5)] 60
     = Inr (PInt 5)"
  by (simp add: summary_defs value_defs)

section \<open>Facts about the renderer\<close>

lemmas render_defs = emit_def print_line_def write_status_line_def write_with_break_def
  flush_line_def set_status_def set_activity_def close_open_line_def tty_prefix_def

lemma permanent_append [simp]: "permanent (xs @ ys) = permanent xs @ permanent ys"
  by (simp add: permanent_def)

lemma permanent_Nil [simp]: "permanent [] = []"
  by (simp add: permanent_def)

lemma permanent_Cons [simp]:
  "permanent (Wr s k t # ws) = (if k = StatusDraw then permanent ws else Wr s k t # permanent ws)"
  by (simp add: permanent_def)

lemma permanent_write_status_line [simp]:
  "permanent (out (write_status_line el p)) = permanent (out p)"
  by (simp add: write_status_line_def emit_def)

lemma permanent_set_status [simp]: "permanent (out (set_status el p s)) = permanent (out p)"
  by (simp add: set_status_def Let_def)

lemma permanent_set_activity [simp]: "permanent (out (set_activity el p a)) = permanent (out p)"
  by (simp add: set_activity_def Let_def)

lemma permanent_flush_line:
  "permanent (out (flush_line el p text e)) =
     permanent (out p)
       @ (if is_tty p then [Wr Stderr Text clear_line] else [])
       @ [Wr (if is_tty p \<or> e then Stderr else Stdout) Text text]
       @ (if ends_with_newline text then [] else [Wr (if is_tty p \<or> e then Stderr else Stdout) Text [10]])"
  by (simp add: flush_line_def write_with_break_def emit_def Let_def)

lemma status_set_activity [simp]: "status (set_activity el p a) = status p"
  by (simp add: set_activity_def write_status_line_def emit_def Let_def)

lemma activity_set_activity [simp]: "activity (set_activity el p a) = a"
  by (simp add: set_activity_def write_status_line_def emit_def Let_def)

lemma status_set_status [simp]: "status (set_status el p s) = s"
  by (simp add: set_status_def write_status_line_def emit_def Let_def)

lemma is_tty_flush_line [simp]: "is_tty (flush_line el p text e) = is_tty p"
  by (simp add: flush_line_def write_with_break_def write_status_line_def emit_def Let_def)

section \<open>What an event does to the item lines\<close>

lemma item_writes_append [simp]: "item_writes (xs @ ys) = item_writes xs @ item_writes ys"
  by (simp add: item_writes_def)

lemma item_writes_simps [simp]:
  "item_writes [] = []"
  "item_writes (Wr s Text t # ws) = item_writes ws"
  "item_writes (Wr s StatusDraw t # ws) = item_writes ws"
  "item_writes (Wr s ItemOpen t # ws) = Wr s ItemOpen t # item_writes ws"
  "item_writes (Wr s ItemClose t # ws) = Wr s ItemClose t # item_writes ws"
  "item_writes (Wr s LineBreak t # ws) = Wr s LineBreak t # item_writes ws"
  "item_writes (Wr s Completed t # ws) = Wr s Completed t # item_writes ws"
  by (simp_all add: item_writes_def)


lemma same_items_trans: "same_items p q \<Longrightarrow> same_items q r \<Longrightarrow> same_items p r"
  by (simp add: same_items_def)

lemma same_items_fields [simp]:
  "same_items p (q\<lparr>event_count := n\<rparr>) = same_items p q"
  "same_items p (q\<lparr>token_count := n\<rparr>) = same_items p q"
  "same_items p (q\<lparr>current_line := buf\<rparr>) = same_items p q"
  "same_items p (q\<lparr>has_content := h\<rparr>) = same_items p q"
  "same_items p (q\<lparr>status := s\<rparr>) = same_items p q"
  "same_items p (q\<lparr>activity := a\<rparr>) = same_items p q"
  "same_items p (q\<lparr>recent_activities := ra\<rparr>) = same_items p q"
  by (simp_all add: same_items_def)














lemma is_tty_close_open_line [simp]: "is_tty (close_open_line p) = is_tty p"
  by (simp add: close_open_line_def emit_def)



section \<open>Streaming accumulation\<close>

lemma word_count_hello: "word_count (lit ''hello '') = 1"
  by (simp add: word_count_def lit_def is_space_def)

lemma word_count_world: "word_count (lit ''world'' @ [10]) = 1"
  by (simp add: word_count_def lit_def is_space_def)

lemma drain_hello:
  "current_line p = lit ''hello '' \<Longrightarrow> drain_lines el p = p"
  by (subst drain_lines.simps) (simp add: lit_def)

lemma drain_hello_world:
  assumes "current_line p = lit ''hello world'' @ [10]"
  shows "drain_lines el p = flush_line el (p\<lparr>current_line := []\<rparr>) (lit ''hello world'') False"
proof -
  have a: "10 \<in> set (current_line p)"
    using assms by simp
  have b: "before_first 10 (current_line p) = lit ''hello world''"
    using assms by (simp add: before_first_def lit_def)
  have c: "after_first 10 (current_line p) = []"
    using assms by (simp add: after_first_def lit_def)
  have d: "drain_lines el (flush_line el (p\<lparr>current_line := []\<rparr>) (lit ''hello world'') False)
      = flush_line el (p\<lparr>current_line := []\<rparr>) (lit ''hello world'') False"
    by (subst drain_lines.simps) (simp add: current_line_flush_line)
  show ?thesis
    by (subst drain_lines.simps) (simp add: a b c d Let_def)
qed

text \<open>
  Claim C7. From an empty buffer, feeding \<open>"hello "\<close> and then \<open>"world\n"\<close> to
  \<open>_update_streaming\<close> is one call of \<open>_flush_line("hello world")\<close> and two more tokens
  counted: the permanent output grows by exactly that content line (after the
  line-clearing sequence on a terminal; on standard output otherwise), and the buffer is
  empty afterwards.
\<close>

theorem streaming_hello_world:
  assumes "current_line p = []"
  shows "update_streaming el (update_streaming el p (lit ''hello '')) (lit ''world'' @ [10])
           = flush_line el (p\<lparr>token_count := token_count p + 2\<rparr>) (lit ''hello world'') False
         \<and> current_line (update_streaming el (update_streaming el p (lit ''hello '')) (lit ''world'' @ [10])) = []
         \<and> permanent (out (update_streaming el (update_streaming el p (lit ''hello '')) (lit ''world'' @ [10])))
           = permanent (out p)
               @ (if is_tty p then [Wr Stderr Text clear_line] else [])
               @ [Wr (if is_tty p then Stderr else Stdout) Text (lit ''hello world''),
                  Wr (if is_tty p then Stderr else Stdout) Text [10]]"
proof -
  let ?p1 = "update_streaming el p (lit ''hello '')"
  have p1: "?p1 = p\<lparr>current_line := lit ''hello '', token_count := token_count p + 1\<rparr>"
    using assms by (simp add: update_streaming_def drain_hello word_count_hello)
  have cl: "lit ''hello '' @ lit ''world'' @ [10] = lit ''hello world'' @ [10]"
    by (simp add: lit_def)
  have e: "\<And>q :: printer. current_line q = [] \<Longrightarrow> q\<lparr>current_line := []\<rparr> = q"
    by simp
  have p2: "update_streaming el ?p1 (lit ''world'' @ [10])
      = flush_line el (p\<lparr>token_count := token_count p + 2\<rparr>) (lit ''hello world'') False"
    unfolding p1 using assms
    by (simp add: update_streaming_def drain_hello_world word_count_world cl e add.commute)
  show ?thesis
    unfolding p2 using assms
    by (simp add: current_line_flush_line permanent_flush_line ends_with_newline_def lit_def)
qed

theorem streaming_hello_world_witness:
  "current_line (init True False) = []
   \<and> current_line (update_streaming [] (update_streaming [] (init True False) (lit ''hello ''))
        (lit ''world'' @ [10])) = []
   \<and> permanent (out (update_streaming [] (update_streaming [] (init True False) (lit ''hello ''))
        (lit ''world'' @ [10])))
       = [Wr Stdout Text (lit ''hello world''), Wr Stdout Text [10]]"
proof -
  have h: "current_line (init True False) = []"
    by (simp add: init_def)
  have o: "permanent (out (init True False)) = []" and t: "\<not> is_tty (init True False)"
    by (simp_all add: init_def)
  show ?thesis
    using h streaming_hello_world [OF h, of "[]", THEN conjunct2] by (simp add: o t)
qed

section \<open>The error event\<close>

lemma extract_activity_message_only:
  "extract_activity R [(lit ''message'', PStr (lit ''disk full''))] = Inr None"
  by (simp add: extract_activity_def item_activity_def dget_def is_lit_def one_of_def py_or_def
      Let_def)

lemma dispatch_error_event:
  "dispatch R el p (PStr (lit ''error'')) (PDict [(lit ''message'', PStr (lit ''disk full''))]) None
     = Inr p"
  by (simp add: dispatch_def log_event_brief_def is_lit_def one_of_def opt_text_def and_then_def
      startswith_def lit_def)

lemma is_tty_set_activity [simp]: "is_tty (set_activity el p a) = is_tty p"
  by (simp add: set_activity_def write_status_line_def emit_def Let_def)

lemma is_tty_set_status [simp]: "is_tty (set_status el p s) = is_tty p"
  by (simp add: set_status_def write_status_line_def emit_def Let_def)

lemma note_activity_permanent:
  assumes "note_activity R el p payload = Inr (act, p1)"
  shows "permanent (out p1) = permanent (out p) \<and> is_tty p1 = is_tty p"
proof (cases payload)
  case (PDict d)
  then show ?thesis
    using assms
    by (cases "extract_activity R d") (auto simp: note_activity_def and_then_def split: if_splits)
qed (use assms in \<open>simp_all add: note_activity_def\<close>)

lemma log_event_brief_cases:
  assumes "log_event_brief R el p etype payload act = Inr p'"
  shows "p' = p \<or> (\<exists>t. p' = print_line Stderr t p)"
  using assms
  by (auto simp: log_event_brief_def and_then_def Let_def split: if_splits sum.splits)

lemma dispatch_error_permanent:
  assumes "dispatch R el p (PStr (lit ''error'')) (PDict d) act = Inr p2"
  shows "\<exists>brief. permanent (out p2) = permanent (out p) @ brief \<and> is_tty p2 = is_tty p"
proof -
  have "p2 = p \<or> log_event_brief R el p (PStr (lit ''error'')) (PDict d) act = Inr p2"
    using assms by (simp add: dispatch_def is_lit_def one_of_def split: if_splits)
  then have "p2 = p \<or> (\<exists>t. p2 = print_line Stderr t p)"
    using log_event_brief_cases by blast
  then show ?thesis
    by (auto simp: print_line_def emit_def)
qed

lemma error_event_any_payload:
  assumes t: "dget event ''type'' = PStr (lit ''error'')"
    and pl: "dget_default event ''payload'' (PDict []) = PDict d"
    and msg: "dget d ''message'' = PStr (lit ''disk full'')"
    and on: "on_event R el p event = Inr q"
  shows "status q = lit ''error'' \<and> activity q = []
     \<and> (\<exists>brief. permanent (out q) = permanent (out p) @ brief
           @ (if is_tty p then [Wr Stderr Text clear_line] else [])
           @ [Wr Stderr Text (lit ''[error] disk full''), Wr Stderr Text [10]])"
proof -
  let ?p0 = "p\<lparr>event_count := event_count p + 1\<rparr>"
  let ?etype = "PStr (lit ''error'')"
  obtain act p1 where n: "note_activity R el ?p0 (PDict d) = Inr (act, p1)"
    using on t pl
    by (cases "note_activity R el ?p0 (PDict d)") (auto simp: on_event_def and_then_def Let_def)
  obtain p2 where dd: "dispatch R el p1 ?etype (PDict d) act = Inr p2"
    using on t pl n
    by (cases "dispatch R el p1 ?etype (PDict d) act") (auto simp: on_event_def and_then_def Let_def)
  let ?p3 = "set_activity el (set_status el
      (flush_line el p2 (lit ''[error] disk full'') True) (lit ''error'')) []"
  have e: "error_or_stream R el p2 ?etype (PDict d) = Inr ?p3"
    using msg by (simp add: error_or_stream_def is_lit_def and_then_def py_or_def Let_def lit_append)
  have f: "fallback_status el ?p3 ?etype = ?p3"
    by (simp add: fallback_status_def is_lit_def one_of_def)
  have q: "q = ?p3"
    using on t pl n dd e f by (simp add: on_event_def and_then_def Let_def)
  have 1: "permanent (out p1) = permanent (out p)" and t1: "is_tty p1 = is_tty p"
    using note_activity_permanent [OF n] by simp_all
  obtain brief where 2: "permanent (out p2) = permanent (out p1) @ brief" and t2: "is_tty p2 = is_tty p1"
    using dispatch_error_permanent [OF dd] by blast
  have nl: "\<not> ends_with_newline (lit ''[error] disk full'')"
    by (simp add: ends_with_newline_def lit_def)
  have "permanent (out q) = permanent (out p) @ brief
           @ (if is_tty p then [Wr Stderr Text clear_line] else [])
           @ [Wr Stderr Text (lit ''[error] disk full''), Wr Stderr Text [10]]"
    unfolding q by (simp add: permanent_flush_line nl 1 2 t1 t2)
  moreover have "status q = lit ''error''" and "activity q = []"
    unfolding q by simp_all
  ultimately show ?thesis by blast
qed

text \<open>
  Claim C8. Processing the event \<open>{"type": "error", "payload": {"message": "disk full"}}\<close>
  calls \<open>_flush_line("[error] disk full", is_error=True)\<close>, then \<open>set_status("error")\<close> and
  \<open>set_activity("")\<close>: the permanent output grows by the content line
  \<open>[error] disk full\<close> on the error stream (after the line-clearing sequence on a
  terminal), and afterwards the status is \<open>error\<close> and the activity is empty. The same
  holds for every \<open>error\<close> event whose payload has this message, when \<open>on_event\<close> returns;
  before the error line there may then be the brief line of an activity that the
  payload's other fields describe.
\<close>

theorem error_event_line:
  "on_event R el p error_event
     = Inr (set_activity el
             (set_status el
               (flush_line el (p\<lparr>event_count := event_count p + 1\<rparr>) (lit ''[error] disk full'') True)
               (lit ''error''))
             [])
   \<and> (\<exists>p'. on_event R el p error_event = Inr p'
        \<and> status p' = lit ''error'' \<and> activity p' = []
        \<and> permanent (out p') =
            permanent (out p)
              @ (if is_tty p then [Wr Stderr Text clear_line] else [])
              @ [Wr Stderr Text (lit ''[error] disk full''), Wr Stderr Text [10]])
   \<and> (\<forall>event d q.
         dget event ''type'' = PStr (lit ''error'')
         \<and> dget_default event ''payload'' (PDict []) = PDict d
         \<and> dget d ''message'' = PStr (lit ''disk full'')
         \<and> on_event R el p event = Inr q
        \<longrightarrow> status q = lit ''error'' \<and> activity q = []
            \<and> (\<exists>brief. permanent (out q) = permanent (out p) @ brief
                  @ (if is_tty p then [Wr Stderr Text clear_line] else [])
                  @ [Wr Stderr Text (lit ''[error] disk full''), Wr Stderr Text [10]]))"
proof -
  have ev: "on_event R el p error_event
     = Inr (set_activity el
             (set_status el
               (flush_line el (p\<lparr>event_count := event_count p + 1\<rparr>) (lit ''[error] disk full'') True)
               (lit ''error''))
             [])"
    by (simp add: on_event_def error_event_def note_activity_def extract_activity_message_only
        dispatch_error_event error_or_stream_def fallback_status_def opt_text_def
        dget_def dget_default_def is_lit_def one_of_def py_or_def and_then_def Let_def lit_append)
  have nl: "\<not> ends_with_newline (lit ''[error] disk full'')"
    by (simp add: ends_with_newline_def lit_def)
  have one: "\<exists>p'. on_event R el p error_event = Inr p'
        \<and> status p' = lit ''error'' \<and> activity p' = []
        \<and> permanent (out p') =
            permanent (out p)
              @ (if is_tty p then [Wr Stderr Text clear_line] else [])
              @ [Wr Stderr Text (lit ''[error] disk full''), Wr Stderr Text [10]]"
    unfolding ev by (simp add: permanent_flush_line nl)
  show ?thesis
    using ev one error_event_any_payload [of _ _ R el p] by blast
qed

theorem error_event_line_witness:
  "dget error_event ''type'' = PStr (lit ''error'')
   \<and> dget_default error_event ''payload'' (PDict []) = PDict [(lit ''message'', PStr (lit ''disk full''))]
   \<and> dget [(lit ''message'', PStr (lit ''disk full''))] ''message'' = PStr (lit ''disk full'')
   \<and> (\<exists>q. on_event no_repr (lit ''3.0s'') (init True False) error_event = Inr q
        \<and> status q = lit ''error'' \<and> activity q = []
        \<and> permanent (out q) = [Wr Stderr Text (lit ''[error] disk full''), Wr Stderr Text [10]])"
proof -
  have "dget error_event ''type'' = PStr (lit ''error'')"
    and "dget_default error_event ''payload'' (PDict []) = PDict [(lit ''message'', PStr (lit ''disk full''))]"
    and "dget [(lit ''message'', PStr (lit ''disk full''))] ''message'' = PStr (lit ''disk full'')"
    by (simp_all add: error_event_def dget_def dget_default_def)
  moreover have "permanent (out (init True False)) = []" and "\<not> is_tty (init True False)"
    by (simp_all add: init_def)
  ultimately show ?thesis
    using error_event_line [of no_repr "lit ''3.0s''" "init True False", THEN conjunct2, THEN conjunct1]
    by simp
qed

section \<open>The recent-activity history\<close>

lemma recent_set_activity [simp]:
  "recent_activities (set_activity el p a) = remember (recent_activities p) a"
  by (simp add: set_activity_def write_status_line_def emit_def Let_def)

lemma remember_length: "length r \<le> 10 \<Longrightarrow> length (remember r a) \<le> 10"
  by (simp add: remember_def Let_def)

lemma distinct_adj_tl': "distinct_adj xs \<Longrightarrow> distinct_adj (tl xs)"
  by (cases xs) (auto simp: distinct_adj_Cons)

lemma remember_distinct_adj: "distinct_adj r \<Longrightarrow> distinct_adj (remember r a)"
  by (auto simp: remember_def Let_def distinct_adj_append_iff intro!: distinct_adj_tl')

lemma remember_skip:
  "a = [] \<or> (r \<noteq> [] \<and> last r = a) \<Longrightarrow> remember r a = r"
  by (auto simp: remember_def)

lemma remember_append:
  "a \<noteq> [] \<Longrightarrow> r = [] \<or> last r \<noteq> a \<Longrightarrow>
     remember r a = (if length r < 10 then r @ [a] else tl r @ [a])"
  by (cases r) (auto simp: remember_def Let_def)

lemma recent_start [simp]: "recent_activities (start el p l) = []"
  by (simp add: start_def write_status_line_def print_line_def emit_def Let_def)

text \<open>
  Claim C9. \<open>set_activity\<close> keeps the history at no more than 10 entries without two
  equal neighbours: an empty activity, or one equal to the last entry, leaves the
  history as it is, and \<open>start\<close> empties it.
\<close>

theorem recent_activities_invariant:
  assumes "length (recent_activities p) \<le> 10" and "distinct_adj (recent_activities p)"
  shows "length (recent_activities (set_activity el p a)) \<le> 10
       \<and> distinct_adj (recent_activities (set_activity el p a))
       \<and> (a = [] \<or> (recent_activities p \<noteq> [] \<and> last (recent_activities p) = a)
            \<longrightarrow> recent_activities (set_activity el p a) = recent_activities p)
       \<and> recent_activities (start el p l) = []"
  using assms by (simp add: remember_length remember_distinct_adj remember_skip)

theorem recent_activities_invariant_witness:
  "length (recent_activities (init True False)) \<le> 10
   \<and> distinct_adj (recent_activities (init True False))
   \<and> recent_activities (set_activity [] (set_activity [] (set_activity [] (init True False)
         (lit ''thinking...'')) (lit ''thinking...'')) []) = [lit ''thinking...'']
   \<and> length (recent_activities (set_activity [] (init True False) (lit ''thinking...''))) \<le> 10
   \<and> distinct_adj (recent_activities (set_activity [] (init True False) (lit ''thinking...'')))"
  using recent_activities_invariant [of "init True False" "[]" "lit ''thinking...''" "[]"]
  by (simp add: init_def remember_def)

section \<open>Tool results\<close>





section \<open>Item lines and the status line\<close>

lemma open_after_append [simp]: "open_after b (xs @ ys) = open_after (open_after b xs) ys"
  by (induction xs arbitrary: b) auto

lemma stream_ok_append [simp]:
  "stream_ok b (xs @ ys) = (stream_ok b xs \<and> stream_ok (open_after b xs) ys)"
  by (induction xs arbitrary: b) auto

lemma open_next_simps [simp]:
  "open_next b (Wr s StatusDraw t) = b"
  "open_next b (Wr s Text t) = b"
  "open_next b (Wr s Completed t) = b"
  "open_next b (Wr s ItemOpen t) = True"
  "open_next b (Wr s ItemClose t) = False"
  "open_next b (Wr s LineBreak t) = False"
  by (simp_all add: open_next_def)

lemma write_ok_simps [simp]:
  "write_ok b (Wr s StatusDraw t) = (\<not> b)"
  "write_ok b (Wr s Text t) = True"
  "write_ok b (Wr s Completed t) = True"
  "write_ok b (Wr s ItemOpen t) = (\<not> b)"
  "write_ok b (Wr s ItemClose t) = b"
  "write_ok b (Wr s LineBreak t) = b"
  by (simp_all add: write_ok_def)

lemma in_order_write_status_line: "in_order p \<Longrightarrow> in_order (write_status_line el p)"
  by (auto simp: in_order_def write_status_line_def emit_def)

lemma in_order_emit_Text: "in_order p \<Longrightarrow> in_order (emit s Text t p)"
  by (auto simp: in_order_def emit_def)

lemma in_order_fields:
  "in_order (p\<lparr>event_count := n\<rparr>) = in_order p"
  "in_order (p\<lparr>token_count := n\<rparr>) = in_order p"
  "in_order (p\<lparr>current_line := buf\<rparr>) = in_order p"
  "in_order (p\<lparr>running := r\<rparr>) = in_order p"
  "in_order (p\<lparr>spinner_idx := i\<rparr>) = in_order p"
  "in_order (p\<lparr>status := s\<rparr>) = in_order p"
  "in_order (p\<lparr>activity := a\<rparr>) = in_order p"
  "in_order (p\<lparr>has_content := h\<rparr>) = in_order p"
  "in_order (p\<lparr>recent_activities := ra\<rparr>) = in_order p"
  "in_order (p\<lparr>label := l\<rparr>) = in_order p"
  by (simp_all add: in_order_def)

lemma in_order_tick: "in_order p \<Longrightarrow> in_order (spinner_tick el p)"
  by (simp add: spinner_tick_def in_order_write_status_line in_order_fields)

lemma in_order_set_status: "in_order p \<Longrightarrow> in_order (set_status el p s)"
  by (simp add: set_status_def Let_def in_order_write_status_line in_order_fields)

lemma in_order_set_activity: "in_order p \<Longrightarrow> in_order (set_activity el p a)"
  by (simp add: set_activity_def Let_def in_order_write_status_line in_order_fields)

lemma in_order_write_with_break: "in_order p \<Longrightarrow> in_order (write_with_break s t p)"
  by (simp add: write_with_break_def Let_def in_order_emit_Text)

lemma in_order_flush_line: "in_order p \<Longrightarrow> in_order (flush_line el p text e)"
  by (simp add: flush_line_def Let_def in_order_write_status_line in_order_fields
      in_order_write_with_break in_order_emit_Text)

lemma in_order_close: "in_order p \<Longrightarrow> in_order (close_open_line p) \<and> \<not> item_line_open (close_open_line p)"
  by (auto simp: in_order_def close_open_line_def emit_def)

lemma in_order_open:
  "in_order p \<Longrightarrow> \<not> item_line_open p \<Longrightarrow>
     in_order ((emit s ItemOpen t p)\<lparr>item_line_open := True, has_content := True\<rparr>)"
  by (auto simp: in_order_def emit_def)



lemma in_order_item_started:
  assumes "in_order p" and "log_item_started R el p payload = Inr p'"
  shows "in_order p'"
proof (cases "item_summary R payload")
  case (Inl e)
  then show ?thesis using assms(2) by (simp add: log_item_started_def and_then_def)
next
  case (Inr summary)
  then have "p' = (emit Stderr ItemOpen
          (tty_prefix (close_open_line p) @ lit ''['' @ el @ lit ''] '' @ glyph_started @ lit '' ''
             @ summary @ lit '' '') (close_open_line p))\<lparr>item_line_open := True, has_content := True\<rparr>"
    using assms(2) by (simp add: log_item_started_def and_then_def Let_def)
  then show ?thesis
    using in_order_close [OF assms(1)] by (simp add: in_order_open)
qed

lemma in_order_close_mark:
  "in_order p \<Longrightarrow> item_line_open p \<Longrightarrow>
     in_order ((emit s ItemClose t p)\<lparr>item_line_open := False\<rparr>)"
  by (auto simp: in_order_def emit_def)

lemma in_order_completed_line: "in_order p \<Longrightarrow> in_order (emit s Completed t p)"
  by (auto simp: in_order_def emit_def)

lemma in_order_item_completed:
  assumes "in_order p" and "log_item_completed R el p payload = Inr p'"
  shows "in_order p'"
proof (cases "item_summary R payload")
  case (Inl e)
  then show ?thesis using assms(2) by (simp add: log_item_completed_def and_then_def)
next
  case (Inr summary)
  show ?thesis
  proof (cases "item_line_open p")
    case True
    then show ?thesis
      using assms Inr by (auto simp: log_item_completed_def and_then_def in_order_close_mark)
  next
    case False
    then show ?thesis
      using assms Inr by (auto simp: log_item_completed_def and_then_def in_order_completed_line)
  qed
qed


lemma in_order_turn_event: "in_order p \<Longrightarrow> in_order (log_turn_event el p etype)"
  using in_order_close [of p]
  by (simp add: log_turn_event_def Let_def in_order_fields in_order_emit_Text)

lemma in_order_tool_use:
  assumes "in_order p"
  shows "in_order (tool_use_item R el p item)"
proof (cases item)
  case (PDict d)
  show ?thesis
  proof (cases "is_lit (dget d ''type'') ''tool_use''")
    case True
    then show ?thesis
      using in_order_close [OF assms] PDict
      by (simp add: tool_use_item_def Let_def in_order_open)
  next
    case False
    then show ?thesis using assms PDict by (simp add: tool_use_item_def)
  qed
qed (simp_all add: tool_use_item_def assms)

lemma in_order_tool_result:
  assumes "in_order p" and "log_claude_tool_result el p payload = Inr p'"
  shows "in_order p'"
proof (cases "sub_dict payload ''message''")
  case (Inl e)
  then show ?thesis using assms(2) by (simp add: log_claude_tool_result_def and_then_def)
next
  case (Inr message)
  show ?thesis
  proof (cases "dget_default message ''content'' (PList [])")
    case (PList content)
    then show ?thesis
      using assms Inr
      by (auto simp: log_claude_tool_result_def and_then_def in_order_close_mark split: if_splits)
  qed (use assms Inr in \<open>simp_all add: log_claude_tool_result_def and_then_def\<close>)
qed

lemma in_order_start:
  "in_order p \<Longrightarrow> \<not> item_line_open p \<Longrightarrow> in_order (start el p l)"
  by (auto simp: start_def Let_def in_order_def write_status_line_def print_line_def emit_def)

lemma in_order_init: "in_order (init tokens tty) \<and> \<not> item_line_open (init tokens tty)"
  by (simp add: in_order_def init_def)


lemma reachable_in_order: "reachable p \<Longrightarrow> in_order p"
proof (induction rule: reachable.induct)
  case (r_start el tokens tty label_arg)
  show ?case using in_order_init [of tokens tty] by (simp add: in_order_start)
next
  case (r_restart p el label_arg)
  then show ?case by (simp add: in_order_start)
next
  case (r_tick p el)
  then show ?case by (simp add: in_order_tick)
next
  case (r_set_status p el s)
  then show ?case by (simp add: in_order_set_status)
next
  case (r_set_activity p el a)
  then show ?case by (simp add: in_order_set_activity)
next
  case (r_flush_line p el t e)
  then show ?case by (simp add: in_order_flush_line)
next
  case (r_item_started p R el payload q)
  then show ?case using in_order_item_started by blast
next
  case (r_item_completed p R el payload q)
  then show ?case using in_order_item_completed by blast
next
  case (r_turn_event p el etype)
  then show ?case by (simp add: in_order_turn_event)
next
  case (r_tool_use p R el item)
  then show ?case by (simp add: in_order_tool_use)
next
  case (r_tool_result p el payload q)
  then show ?case using in_order_tool_result by blast
next
  case (r_close p)
  then show ?case using in_order_close by blast
next
  case (r_print p s t)
  then show ?case by (simp add: in_order_emit_Text)
qed (simp_all add: in_order_fields)


text \<open>The calls of the interface are sequences of the steps of \<open>reachable\<close>.\<close>

lemma reachable_print_line: "reachable p \<Longrightarrow> reachable (print_line s t p)"
  by (simp add: print_line_def r_print)

lemma reachable_drain_lines: "reachable p \<Longrightarrow> reachable (drain_lines el p)"
proof (induction el p rule: drain_lines.induct)
  case (1 el p)
  show ?case
  proof (cases "10 \<in> set (current_line p)")
    case True
    let ?line = "before_first 10 (current_line p)"
    let ?p1 = "p\<lparr>current_line := after_first 10 (current_line p)\<rparr>"
    let ?p2 = "if ?line \<noteq> [] then flush_line el ?p1 ?line False else ?p1"
    have "reachable ?p1" using "1.prems" by (rule r_current_line)
    then have "reachable ?p2" by (simp add: r_flush_line)
    then have "reachable (drain_lines el ?p2)"
      using "1.IH" [OF True refl refl] by simp
    then show ?thesis
      using True by (subst drain_lines.simps) (simp add: Let_def)
  next
    case False
    then show ?thesis using "1.prems" by (subst drain_lines.simps) simp
  qed
qed

lemma reachable_update_streaming: "reachable p \<Longrightarrow> reachable (update_streaming el p text)"
proof -
  assume r: "reachable p"
  have "reachable (p\<lparr>current_line := current_line p @ text,
                        token_count := token_count p + word_count text\<rparr>)"
    by (intro r_current_line r_token_count r)
  then have "reachable (drain_lines el (p\<lparr>current_line := current_line p @ text,
                        token_count := token_count p + word_count text\<rparr>))"
    by (rule reachable_drain_lines)
  then show ?thesis
    by (simp add: update_streaming_def)
qed

lemma reachable_tool_use_loop: "reachable p \<Longrightarrow> reachable (foldl (tool_use_item R el) p content)"
  by (induction content arbitrary: p) (simp_all add: r_tool_use)

lemma reachable_log_claude_tool_use:
  assumes "reachable p" and "log_claude_tool_use R el p payload = Inr p'"
  shows "reachable p'"
proof (cases "sub_dict payload ''message''")
  case (Inl e)
  then show ?thesis using assms(2) by (simp add: log_claude_tool_use_def and_then_def)
next
  case (Inr message)
  then show ?thesis
    using assms
    by (cases "dget_default message ''content'' (PList [])")
      (auto simp: log_claude_tool_use_def and_then_def reachable_tool_use_loop)
qed

lemma reachable_log_event_brief:
  assumes "reachable p" and "log_event_brief R el p etype payload act = Inr p'"
  shows "reachable p'"
proof -
  have "p' = p \<or> (\<exists>t. p' = print_line Stderr t p)"
    using assms(2)
    by (auto simp: log_event_brief_def and_then_def Let_def split: if_splits sum.splits)
  then show ?thesis using assms(1) reachable_print_line by auto
qed


lemma reachable_note_activity:
  assumes "reachable p" and "note_activity R el p payload = Inr (act, p1)"
  shows "reachable p1"
proof (cases payload)
  case (PDict d)
  then show ?thesis
    using assms
    by (cases "extract_activity R d")
      (auto simp: note_activity_def and_then_def r_set_activity split: if_splits)
qed (use assms in \<open>simp_all add: note_activity_def\<close>)

lemma reachable_dispatch_dict:
  assumes "reachable p" and "dispatch R el p etype (PDict d) act = Inr p2"
  shows "reachable p2"
proof -
  have "log_item_started R el p d = Inr p2
      \<or> log_item_completed R el p d = Inr p2
      \<or> p2 = log_turn_event el p etype
      \<or> log_claude_tool_use R el p d = Inr p2
      \<or> log_claude_tool_result el p d = Inr p2
      \<or> log_event_brief R el p etype (PDict d) act = Inr p2
      \<or> p2 = p"
    using assms(2) by (simp add: dispatch_def split: if_splits)
  then show ?thesis
    using assms(1) r_item_started r_item_completed r_turn_event reachable_log_claude_tool_use
      r_tool_result reachable_log_event_brief
    by metis
qed

lemma reachable_dispatch:
  assumes "reachable p" and "dispatch R el p etype payload act = Inr p2"
  shows "reachable p2"
proof (cases "\<exists>d. payload = PDict d")
  case True
  then show ?thesis using assms reachable_dispatch_dict by blast
next
  case False
  then have "p2 = log_turn_event el p etype
      \<or> log_event_brief R el p etype payload act = Inr p2 \<or> p2 = p"
    using assms(2) by (cases payload) (auto simp: dispatch_def split: if_splits)
  then show ?thesis
    using assms(1) reachable_log_event_brief r_turn_event by blast
qed


lemma reachable_error_or_stream:
  assumes "reachable p" and "error_or_stream R el p etype payload = Inr p3"
  shows "reachable p3"
proof (cases "is_lit etype ''error''")
  case True
  then obtain msg where "p3 = set_activity el (set_status el (flush_line el p msg True) (lit ''error'')) []"
    using assms(2)
    by (cases payload) (auto simp: error_or_stream_def and_then_def Let_def)
  then show ?thesis
    using assms(1) by (simp add: r_set_activity r_set_status r_flush_line)
next
  case False
  then have "p3 = p \<or> (\<exists>t. p3 = update_streaming el p t)
      \<or> (\<exists>t. p3 = set_status el (update_streaming el p t) (lit ''streaming...''))"
    using assms(2)
    by (auto simp: error_or_stream_def Let_def split: if_splits pyval.splits)
  then show ?thesis
    using assms(1) by (auto simp: r_set_status reachable_update_streaming)
qed

lemma reachable_fallback_status: "reachable p \<Longrightarrow> reachable (fallback_status el p etype)"
  by (simp add: fallback_status_def r_set_status)

lemma reachable_on_event:
  assumes "reachable p" and "on_event R el p event = Inr q"
  shows "reachable q"
proof -
  let ?p0 = "p\<lparr>event_count := event_count p + 1\<rparr>"
  let ?etype = "dget event ''type''"
  let ?payload = "dget_default event ''payload'' (PDict [])"
  have r0: "reachable ?p0" using assms(1) by (rule r_event_count)
  obtain act p1 where n: "note_activity R el ?p0 ?payload = Inr (act, p1)"
    using assms(2) by (cases "note_activity R el ?p0 ?payload") (auto simp: on_event_def and_then_def Let_def)
  obtain p2 where d: "dispatch R el p1 ?etype ?payload act = Inr p2"
    using assms(2) n
    by (cases "dispatch R el p1 ?etype ?payload act") (auto simp: on_event_def and_then_def Let_def)
  obtain p3 where e: "error_or_stream R el p2 ?etype ?payload = Inr p3"
    using assms(2) n d
    by (cases "error_or_stream R el p2 ?etype ?payload") (auto simp: on_event_def and_then_def Let_def)
  have q: "q = fallback_status el p3 ?etype"
    using assms(2) n d e by (simp add: on_event_def and_then_def Let_def)
  have "reachable p1" using r0 n by (rule reachable_note_activity)
  then have "reachable p2" using d by (rule reachable_dispatch)
  then have "reachable p3" using e by (rule reachable_error_or_stream)
  then show ?thesis unfolding q by (rule reachable_fallback_status)
qed

lemma reachable_done_run: "reachable p \<Longrightarrow> reachable (done_run el secs p st)"
  by (simp add: done_run_def Let_def reachable_print_line r_print r_current_line r_flush_line
      r_close r_stop)

text \<open>
  Claim C4. In every reachable state the writes so far are in order: no status line was
  drawn and no second item line was opened while an item line was open, every line
  break and completion mark closed an open item line, and \<open>_item_line_open\<close> says
  whether an item line is open in the output. With the flag set, a tick of the ticker
  writes nothing. A tick, \<open>set_status\<close>, \<open>set_activity\<close>, \<open>on_event\<close> (when it returns)
  and \<open>done\<close> lead from a reachable state to reachable states only, and so does every
  interleaving of ticks with their steps. After \<open>done\<close> no item line is open.
\<close>

theorem status_line_respects_item_line:
  assumes "reachable p"
  shows "stream_ok False (out p)
       \<and> open_after False (out p) = item_line_open p
       \<and> (item_line_open p \<longrightarrow> out (spinner_tick el p) = out p)
       \<and> reachable (spinner_tick el p)
       \<and> reachable (set_status el p s)
       \<and> reachable (set_activity el p a)
       \<and> (\<forall>event q. on_event R el p event = Inr q \<longrightarrow> reachable q)
       \<and> reachable (done_run el secs p st)
       \<and> \<not> item_line_open (done_run el secs p st)"
proof -
  have "in_order p"
    using assms by (rule reachable_in_order)
  then have "stream_ok False (out p)" and "open_after False (out p) = item_line_open p"
    by (simp_all add: in_order_def)
  moreover have "item_line_open p \<longrightarrow> out (spinner_tick el p) = out p"
    by (simp add: spinner_tick_def write_status_line_def)
  moreover have "\<forall>event q. on_event R el p event = Inr q \<longrightarrow> reachable q"
    using assms reachable_on_event by blast
  moreover have "\<not> item_line_open (done_run el secs p st)"
    by (simp add: done_run_def render_defs Let_def)
  ultimately show ?thesis
    using assms by (simp add: r_tick r_set_status r_set_activity reachable_done_run)
qed

theorem status_line_respects_item_line_witness:
  "reachable (tool_use_item no_repr (lit ''1.0s'') (start (lit ''0.0s'') (init True True) (lit ''build''))
      (PDict [(lit ''type'', PStr (lit ''tool_use''))]))
   \<and> item_line_open (tool_use_item no_repr (lit ''1.0s'') (start (lit ''0.0s'') (init True True) (lit ''build''))
      (PDict [(lit ''type'', PStr (lit ''tool_use''))]))
   \<and> stream_ok False (out (tool_use_item no_repr (lit ''1.0s'') (start (lit ''0.0s'') (init True True) (lit ''build''))
      (PDict [(lit ''type'', PStr (lit ''tool_use''))])))
   \<and> open_after False (out (tool_use_item no_repr (lit ''1.0s'') (start (lit ''0.0s'') (init True True) (lit ''build''))
      (PDict [(lit ''type'', PStr (lit ''tool_use''))])))
   \<and> out (spinner_tick (lit ''1.1s'') (tool_use_item no_repr (lit ''1.0s'')
        (start (lit ''0.0s'') (init True True) (lit ''build'')) (PDict [(lit ''type'', PStr (lit ''tool_use''))])))
     = out (tool_use_item no_repr (lit ''1.0s'') (start (lit ''0.0s'') (init True True) (lit ''build''))
        (PDict [(lit ''type'', PStr (lit ''tool_use''))]))"
proof -
  let ?p = "tool_use_item no_repr (lit ''1.0s'') (start (lit ''0.0s'') (init True True) (lit ''build''))
      (PDict [(lit ''type'', PStr (lit ''tool_use''))])"
  have r: "reachable ?p"
    by (intro r_tool_use r_start)
  have o: "item_line_open ?p"
    by (simp add: tool_use_item_def dget_def is_lit_def Let_def)
  show ?thesis
    using r o status_line_respects_item_line [OF r, of "lit ''1.1s''"] by simp
qed

section \<open>Opening and closing an item line\<close>





end
